theory Spec2Isabelle
  imports Complex_Main
begin

section \<open>Python numbers\<close>

text \<open>
  The converters read their input with \<^verbatim>\<open>json.load\<close>, so every number is a Python
  \<^verbatim>\<open>int\<close> (unbounded) or a Python \<^verbatim>\<open>float\<close> (IEEE-754 binary64). A float is
  represented by its exact value, a rational. Only finite floats are represented as
  input: the tokens \<^verbatim>\<open>NaN\<close> and \<^verbatim>\<open>Infinity\<close> are not JSON, and a literal beyond the
  range of binary64 is not considered. Fields are typed as the sprite editor writes them
  (numbers, strings, objects, lists); a field holding a value of another JSON type is not
  represented.
\<close>

datatype pynum = PInt int | PFloat rat

datatype error = KeyError string | OverflowError

text \<open>The exact value of a number.\<close>

fun num_val :: "pynum \<Rightarrow> rat" where
  "num_val (PInt n) = of_int n"
| "num_val (PFloat q) = q"

text \<open>
  \<^verbatim>\<open>round(x)\<close> on a float rounds to the nearest integer and a tie to the even
  neighbour; \<^verbatim>\<open>int(x)\<close> on a float drops the fraction (towards zero).
\<close>

definition round_half_even :: "rat \<Rightarrow> int" where
  "round_half_even q =
     (let f = \<lfloor>q\<rfloor>; r = q - of_int f
      in if r < 1 / 2 then f else if 1 / 2 < r then f + 1 else if even f then f else f + 1)"

definition trunc_zero :: "rat \<Rightarrow> int" where
  "trunc_zero q = (if 0 \<le> q then \<lfloor>q\<rfloor> else \<lceil>q\<rceil>)"

fun py_int :: "pynum \<Rightarrow> int" where
  "py_int (PInt n) = n"
| "py_int (PFloat q) = trunc_zero q"

fun py_round :: "pynum \<Rightarrow> int" where
  "py_round (PInt n) = n"
| "py_round (PFloat q) = round_half_even q"

text \<open>\<^verbatim>\<open>x == 0\<close> and \<^verbatim>\<open>x > 0\<close> compare values, whatever the numeric type.\<close>

fun py_eq0 :: "pynum \<Rightarrow> bool" where
  "py_eq0 (PInt n) = (n = 0)"
| "py_eq0 (PFloat q) = (q = 0)"

fun py_gt0 :: "pynum \<Rightarrow> bool" where
  "py_gt0 (PInt n) = (0 < n)"
| "py_gt0 (PFloat q) = (0 < q)"

text \<open>\<^verbatim>\<open>d.get(key, 0)\<close> for a numeric field.\<close>

definition get_num :: "pynum option \<Rightarrow> pynum" where
  "get_num v = (case v of None \<Rightarrow> PInt 0 | Some n \<Rightarrow> n)"

subsection \<open>Rounding to binary64\<close>

text \<open>
  A float literal and the result of a float multiplication are the binary64 value nearest
  to the exact one, ties to the even significand. \<open>binary_exponent q\<close> is the \<open>e\<close> with
  \<open>2 ^ e \<le> \<bar>q\<bar> < 2 ^ (e + 1)\<close>; the spacing of the binary64 values around \<open>q\<close> is
  \<open>2 ^ (e - 52)\<close>, and \<open>2 ^ (- 1074)\<close> in the subnormal range. A rounded value that
  reaches \<open>2 ^ 1024\<close>, that is, whose exponent is 1024 or more, is beyond the largest
  finite binary64 value: the operation gives an infinity.
\<close>

function bit_length :: "int \<Rightarrow> nat" where
  "bit_length n = (if n \<le> 0 then 0 else Suc (bit_length (n div 2)))"
  by pat_completeness auto
termination
  by (relation "measure nat") auto

declare bit_length.simps [simp del]

definition pow2 :: "int \<Rightarrow> rat" where
  "pow2 k = (if 0 \<le> k then 2 ^ nat k else 1 / 2 ^ nat (- k))"

definition binary_exponent :: "rat \<Rightarrow> int" where
  "binary_exponent q =
     (let (n, d) = quotient_of \<bar>q\<bar>;
          k = int (bit_length n) - int (bit_length d)
      in if pow2 k \<le> \<bar>q\<bar> then k else k - 1)"

definition to_double :: "rat \<Rightarrow> rat" where
  "to_double q =
     (if q = 0 then 0
      else let e = max (binary_exponent q) (- 1022); u = pow2 (e - 52)
           in of_int (round_half_even (q / u)) * u)"

definition is_inf :: "rat \<Rightarrow> bool" where
  "is_inf p = (p \<noteq> 0 \<and> 1024 \<le> binary_exponent p)"

text \<open>
  \<^verbatim>\<open>round(x * k)\<close> for an integer literal \<open>k\<close>. An int product is exact. A float product
  is rounded to binary64; when it overflows, the product is an infinity and
  \<^verbatim>\<open>round\<close> raises OverflowError.
\<close>

fun py_round_mul :: "pynum \<Rightarrow> int \<Rightarrow> error + int" where
  "py_round_mul (PInt n) k = Inr (n * k)"
| "py_round_mul (PFloat q) k =
     (let p = to_double (q * of_int k)
      in if is_inf p then Inl OverflowError else Inr (round_half_even p))"

section \<open>The sprite editor's JSON documents\<close>

text \<open>
  One record per JSON object shape. A field read with \<^verbatim>\<open>d[key]\<close> or
  \<^verbatim>\<open>d.get(key, default)\<close> is an option: \<open>None\<close> is the key being absent.
\<close>

record json_point =
  pt_x :: "pynum option"
  pt_y :: "pynum option"

record json_rect =
  topLeftPoint :: "json_point option"
  botRightPoint :: "json_point option"

record json_poi =
  tags :: "string option"
  poi_x :: "pynum option"
  poi_y :: "pynum option"

record json_hitbox =
  hb_flag :: "pynum option"
  hb_width :: "pynum option"
  hb_height :: "pynum option"
  hb_offset :: "json_point option"

record json_frame =
  rect :: "json_rect option"
  duration :: "pynum option"
  offset :: "json_point option"
  POIs :: "json_poi list option"
  hitboxes :: "json_hitbox list option"

record json_anim =
  wrapMode :: "string option"
  loopStartFrame :: "pynum option"
  frames :: "json_frame list option"

section \<open>The compiled animation\<close>

text \<open>
  \<^verbatim>\<open>frame_data\<close> is a dict with the keys sx, sy, sw, sh, dur and, when set, ox, oy, hx,
  hy, atkBox. An option field that is \<open>None\<close> is a key that was never set.
\<close>

record atk_box =
  ab_w :: int
  ab_h :: int
  ab_ox :: int
  ab_oy :: int

record frame_data =
  sx :: int
  sy :: int
  sw :: int
  sh :: int
  dur :: int
  ox :: "int option"
  oy :: "int option"
  hx :: "int option"
  hy :: "int option"
  atkBox :: "atk_box option"

record anim =
  loop :: bool
  loopStart :: "pynum option"
  anim_frames :: "frame_data list"

section \<open>The blocks shared by both converters\<close>

text \<open>\<^verbatim>\<open>d.get(key, {})\<close> for an object with x and y.\<close>

definition get_point :: "json_point option \<Rightarrow> json_point" where
  "get_point v = (case v of None \<Rightarrow> \<lparr>pt_x = None, pt_y = None\<rparr> | Some p \<Rightarrow> p)"

text \<open>\<^verbatim>\<open>d.get(key, [])\<close> for a list.\<close>

definition get_list :: "'a list option \<Rightarrow> 'a list" where
  "get_list v = (case v of None \<Rightarrow> [] | Some l \<Rightarrow> l)"

text \<open>
  The source rectangle (sx, sy, sw, sh): \<^verbatim>\<open>fr['rect']\<close>, its two corners and their
  coordinates are read with \<^verbatim>\<open>[...]\<close>, which raises KeyError on an absent key.
\<close>

definition frame_rect :: "json_frame \<Rightarrow> error + int \<times> int \<times> int \<times> int" where
  "frame_rect fr =
     (case rect fr of None \<Rightarrow> Inl (KeyError ''rect'') | Some r \<Rightarrow>
     (case topLeftPoint r of None \<Rightarrow> Inl (KeyError ''topLeftPoint'') | Some tlp \<Rightarrow>
     (case botRightPoint r of None \<Rightarrow> Inl (KeyError ''botRightPoint'') | Some brp \<Rightarrow>
     (case pt_x tlp of None \<Rightarrow> Inl (KeyError ''x'') | Some tlx \<Rightarrow>
     (case pt_y tlp of None \<Rightarrow> Inl (KeyError ''y'') | Some tly \<Rightarrow>
     (case pt_x brp of None \<Rightarrow> Inl (KeyError ''x'') | Some brx \<Rightarrow>
     (case pt_y brp of None \<Rightarrow> Inl (KeyError ''y'') | Some bry \<Rightarrow>
        Inr (py_int tlx, py_int tly, py_int brx - py_int tlx, py_int bry - py_int tly))))))))"

text \<open>
  \<^verbatim>\<open>dur_sec = fr.get('duration', 0.066); dur = max(1, round(dur_sec * 60))\<close>.
  The literal 0.066 is a float.
\<close>

definition frame_dur :: "json_frame \<Rightarrow> error + int" where
  "frame_dur fr =
     (let dur_sec = (case duration fr of None \<Rightarrow> PFloat (to_double (66 / 1000)) | Some d \<Rightarrow> d)
      in case py_round_mul dur_sec 60 of Inl e \<Rightarrow> Inl e | Inr r \<Rightarrow> Inr (max 1 r))"

text \<open>
  The frame's dict as first built: the rectangle, the duration, and each axis of the
  rounded rendering offset unless it is 0.
\<close>

definition base_frame :: "int \<times> int \<times> int \<times> int \<Rightarrow> int \<Rightarrow> json_frame \<Rightarrow> frame_data" where
  "base_frame r d fr =
     (case r of (x0, y0, w0, h0) \<Rightarrow>
      let off = get_point (offset fr);
          ox0 = py_round (get_num (pt_x off));
          oy0 = py_round (get_num (pt_y off))
      in \<lparr>sx = x0, sy = y0, sw = w0, sh = h0, dur = d,
          ox = (if ox0 \<noteq> 0 then Some ox0 else None),
          oy = (if oy0 \<noteq> 0 then Some oy0 else None),
          hx = None, hy = None, atkBox = None\<rparr>)"

text \<open>\<^verbatim>\<open>tag = poi.get('tags', '')\<close>.\<close>

definition poi_tag :: "json_poi \<Rightarrow> string" where
  "poi_tag poi = (case tags poi of None \<Rightarrow> '''' | Some t \<Rightarrow> t)"

text \<open>The two assignments \<^verbatim>\<open>frame_data['hx'] = ...; frame_data['hy'] = ...\<close>.\<close>

definition set_anchor :: "frame_data \<Rightarrow> json_poi \<Rightarrow> frame_data" where
  "set_anchor frame_data poi =
     frame_data\<lparr>hx := Some (py_round (get_num (poi_x poi))),
                hy := Some (py_round (get_num (poi_y poi)))\<rparr>"

text \<open>
  The attack box read from the JSON: the hitboxes whose flag (0 when absent) equals 0
  are kept, and the first of them is converted.
\<close>

definition is_active :: "json_hitbox \<Rightarrow> bool" where
  "is_active hbx = py_eq0 (get_num (hb_flag hbx))"

definition box_of :: "json_hitbox \<Rightarrow> atk_box" where
  "box_of hb =
     (let hb_off = get_point (hb_offset hb)
      in \<lparr>ab_w = py_round (get_num (hb_width hb)),
          ab_h = py_round (get_num (hb_height hb)),
          ab_ox = py_round (get_num (pt_x hb_off)),
          ab_oy = py_round (get_num (pt_y hb_off))\<rparr>)"

definition set_json_atk_box :: "json_frame \<Rightarrow> frame_data \<Rightarrow> frame_data" where
  "set_json_atk_box fr frame_data =
     (let active_hitboxes = filter is_active (get_list (hitboxes fr))
      in case active_hitboxes of
           [] \<Rightarrow> frame_data
         | hb # _ \<Rightarrow> frame_data\<lparr>atkBox := Some (box_of hb)\<rparr>)"

text \<open>
  The head of \<^verbatim>\<open>convert_anim\<close>, and its returned dict:
  \<^verbatim>\<open>'loopStart': loop_start if is_loop and loop_start > 0 else None\<close>.
\<close>

definition make_anim :: "json_anim \<Rightarrow> frame_data list \<Rightarrow> anim" where
  "make_anim data fds =
     (let wrap = (case wrapMode data of None \<Rightarrow> ''once'' | Some m \<Rightarrow> m);
          loop_start = get_num (loopStartFrame data);
          is_loop = (wrap = ''loop'')
      in \<lparr>loop = is_loop,
          loopStart = (if is_loop \<and> py_gt0 loop_start then Some loop_start else None),
          anim_frames = fds\<rparr>)"

section \<open>build\_zero\_sprites.py\<close>

text \<open>The body of the loop over the POIs: the tag \<^verbatim>\<open>'b'\<close> sets the anchor.\<close>

definition zero_poi_step :: "frame_data \<Rightarrow> json_poi \<Rightarrow> frame_data" where
  "zero_poi_step frame_data poi =
     (if poi_tag poi = ''b'' then set_anchor frame_data poi else frame_data)"

text \<open>The body of the loop over the frames.\<close>

definition zero_frame :: "json_frame \<Rightarrow> error + frame_data" where
  "zero_frame fr =
     (case frame_rect fr of Inl e \<Rightarrow> Inl e | Inr r \<Rightarrow>
     (case frame_dur fr of Inl e \<Rightarrow> Inl e | Inr d \<Rightarrow>
        let frame_data = base_frame r d fr;
            frame_data = foldl zero_poi_step frame_data (get_list (POIs fr));
            frame_data = set_json_atk_box fr frame_data
        in Inr frame_data))"

text \<open>The loop over the frames: the first frame that raises ends the conversion.\<close>

fun zero_frames :: "json_frame list \<Rightarrow> error + frame_data list" where
  "zero_frames [] = Inr []"
| "zero_frames (fr # frs) =
     (case zero_frame fr of Inl e \<Rightarrow> Inl e | Inr fd \<Rightarrow>
     (case zero_frames frs of Inl e \<Rightarrow> Inl e | Inr fds \<Rightarrow> Inr (fd # fds)))"

definition zero_convert_anim :: "string \<Rightarrow> json_anim \<Rightarrow> error + anim" where
  "zero_convert_anim name data =
     (case frames data of None \<Rightarrow> Inl (KeyError ''frames'') | Some frs \<Rightarrow>
     (case zero_frames frs of Inl e \<Rightarrow> Inl e | Inr fds \<Rightarrow> Inr (make_anim data fds)))"

section \<open>build\_sigma\_sprites.py\<close>

text \<open>
  The module's two override tables, dicts of dicts keyed by the animation's name and the
  frame's index. The converter reads them as globals; here they are its first two
  arguments, and the tables of the module are the constants below.
\<close>

type_synonym 'a override_table = "string \<rightharpoonup> (nat \<rightharpoonup> 'a)"

definition MANUAL_ATK_BOXES :: "atk_box override_table" where
  "MANUAL_ATK_BOXES =
     [''attack'' \<mapsto>
        [2 \<mapsto> \<lparr>ab_w = 23, ab_h = 40, ab_ox = 30, ab_oy = - 32\<rparr>,
         3 \<mapsto> \<lparr>ab_w = 23, ab_h = 40, ab_ox = 30, ab_oy = - 32\<rparr>],
      ''attack_air'' \<mapsto>
        [2 \<mapsto> \<lparr>ab_w = 23, ab_h = 40, ab_ox = 23, ab_oy = - 42\<rparr>,
         3 \<mapsto> \<lparr>ab_w = 23, ab_h = 40, ab_ox = 23, ab_oy = - 42\<rparr>],
      ''attack_dash'' \<mapsto>
        [0 \<mapsto> \<lparr>ab_w = 23, ab_h = 40, ab_ox = 21, ab_oy = - 33\<rparr>,
         1 \<mapsto> \<lparr>ab_w = 23, ab_h = 40, ab_ox = 21, ab_oy = - 33\<rparr>],
      ''wall_slide_attack'' \<mapsto>
        [3 \<mapsto> \<lparr>ab_w = 48, ab_h = 53, ab_ox = 53, ab_oy = 3\<rparr>,
         4 \<mapsto> \<lparr>ab_w = 48, ab_h = 53, ab_ox = 53, ab_oy = 3\<rparr>,
         5 \<mapsto> \<lparr>ab_w = 48, ab_h = 53, ab_ox = 53, ab_oy = 3\<rparr>,
         6 \<mapsto> \<lparr>ab_w = 48, ab_h = 53, ab_ox = 53, ab_oy = 3\<rparr>]]"

definition MANUAL_DURATIONS :: "int override_table" where
  "MANUAL_DURATIONS =
     [''attack'' \<mapsto> [0 \<mapsto> 2, 1 \<mapsto> 2, 2 \<mapsto> 3, 3 \<mapsto> 10],
      ''attack_air'' \<mapsto> [2 \<mapsto> 3, 3 \<mapsto> 10],
      ''attack_dash'' \<mapsto> [0 \<mapsto> 3, 1 \<mapsto> 10]]"

text \<open>
  \<^verbatim>\<open>name in T and i in T[name]\<close>, with the value \<^verbatim>\<open>T[name][i]\<close> when it holds.
\<close>

definition override :: "'a override_table \<Rightarrow> string \<Rightarrow> nat \<Rightarrow> 'a option" where
  "override T name i = (case T name of None \<Rightarrow> None | Some m \<Rightarrow> m i)"

text \<open>
  The body of the loop over the POIs: the empty tag sets the anchor; the branch of the
  tag \<^verbatim>\<open>'h'\<close> is \<^verbatim>\<open>pass\<close>.
\<close>

definition sigma_poi_step :: "frame_data \<Rightarrow> json_poi \<Rightarrow> frame_data" where
  "sigma_poi_step frame_data poi =
     (if poi_tag poi = '''' then set_anchor frame_data poi
      else if poi_tag poi = ''h'' \<and> hx frame_data = None then frame_data
      else frame_data)"

text \<open>The body of the loop over the frames, for the frame of index \<open>i\<close>.\<close>

definition sigma_frame ::
  "int override_table \<Rightarrow> atk_box override_table \<Rightarrow> string \<Rightarrow> nat \<Rightarrow> json_frame
     \<Rightarrow> error + frame_data" where
  "sigma_frame durs boxes name i fr =
     (case frame_rect fr of Inl e \<Rightarrow> Inl e | Inr r \<Rightarrow>
     (case frame_dur fr of Inl e \<Rightarrow> Inl e | Inr d \<Rightarrow>
        let d = (case override durs name i of None \<Rightarrow> d | Some m \<Rightarrow> m);
            frame_data = base_frame r d fr;
            frame_data = foldl sigma_poi_step frame_data (get_list (POIs fr));
            frame_data = set_json_atk_box fr frame_data;
            frame_data = (case override boxes name i of None \<Rightarrow> frame_data
                          | Some b \<Rightarrow> frame_data\<lparr>atkBox := Some b\<rparr>)
        in Inr frame_data))"

fun sigma_frames ::
  "int override_table \<Rightarrow> atk_box override_table \<Rightarrow> string \<Rightarrow> nat \<Rightarrow> json_frame list
     \<Rightarrow> error + frame_data list" where
  "sigma_frames durs boxes name i [] = Inr []"
| "sigma_frames durs boxes name i (fr # frs) =
     (case sigma_frame durs boxes name i fr of Inl e \<Rightarrow> Inl e | Inr fd \<Rightarrow>
     (case sigma_frames durs boxes name (Suc i) frs of Inl e \<Rightarrow> Inl e
      | Inr fds \<Rightarrow> Inr (fd # fds)))"

definition sigma_convert_anim ::
  "int override_table \<Rightarrow> atk_box override_table \<Rightarrow> string \<Rightarrow> json_anim \<Rightarrow> error + anim" where
  "sigma_convert_anim durs boxes name data =
     (case frames data of None \<Rightarrow> Inl (KeyError ''frames'') | Some frs \<Rightarrow>
     (case sigma_frames durs boxes name 0 frs of Inl e \<Rightarrow> Inl e
      | Inr fds \<Rightarrow> Inr (make_anim data fds)))"

section \<open>The generated lookup functions\<close>

text \<open>
  Both scripts write a JavaScript accessor into the generated module. The animation table
  is the object literal the script has just written: its own properties are the names
  whose JSON file was found, each an animation. The overlay map is an object literal of
  strings. Both inherit from \<^verbatim>\<open>Object.prototype\<close>, so a property read \<^verbatim>\<open>T[k]\<close> gives the
  own property \<open>k\<close> when there is one, else the member of that name of
  \<^verbatim>\<open>Object.prototype\<close> when there is one, else \<^verbatim>\<open>undefined\<close>.
\<close>

datatype js_value = JAnim anim | JString string | JInherited string | JUndefined

text \<open>
  The names of the members of \<^verbatim>\<open>Object.prototype\<close>. Each is a function, but for
  \<^verbatim>\<open>__proto__\<close>, which reads as \<^verbatim>\<open>Object.prototype\<close> itself.
\<close>

definition OBJECT_PROTOTYPE :: "string list" where
  "OBJECT_PROTOTYPE =
     [''constructor'', ''hasOwnProperty'', ''isPrototypeOf'', ''propertyIsEnumerable'',
      ''toLocaleString'', ''toString'', ''valueOf'', ''__proto__'',
      ''__defineGetter__'', ''__defineSetter__'', ''__lookupGetter__'', ''__lookupSetter__'']"

definition inherited :: "string \<Rightarrow> js_value" where
  "inherited k = (if k \<in> set OBJECT_PROTOTYPE then JInherited k else JUndefined)"

text \<open>
  An object, a function and a string that is not empty are truthy; \<^verbatim>\<open>undefined\<close> and
  the empty string are not.
\<close>

fun truthy :: "js_value \<Rightarrow> bool" where
  "truthy (JAnim a) = True"
| "truthy (JString s) = (s \<noteq> '''')"
| "truthy (JInherited k) = True"
| "truthy JUndefined = False"

text \<open>
  The property key that a value names in \<^verbatim>\<open>T[v]\<close>: a string names itself, any other
  value its conversion to a string, which for a built-in function is its source text.
\<close>

fun to_key :: "js_value \<Rightarrow> string" where
  "to_key (JString s) = s"
| "to_key (JInherited k) =
     (if k = ''__proto__'' then ''[object Object]''
      else ''function '' @ (if k = ''constructor'' then ''Object'' else k)
             @ ''() { [native code] }'')"
| "to_key (JAnim a) = ''[object Object]''"
| "to_key JUndefined = ''undefined''"

definition ZERO_SHOOT_ANIM_MAP :: "string \<rightharpoonup> string" where
  "ZERO_SHOOT_ANIM_MAP =
     [''idle'' \<mapsto> ''shoot'',
      ''run'' \<mapsto> ''run_shoot'',
      ''jump'' \<mapsto> ''jump_shoot'',
      ''fall'' \<mapsto> ''fall_shoot'',
      ''dash'' \<mapsto> ''dash_shoot'',
      ''wall_slide'' \<mapsto> ''wall_slide_shoot'']"

text \<open>\<^verbatim>\<open>ZERO_SHOOT_ANIM_MAP[state]\<close>, and \<^verbatim>\<open>T[k]\<close> for an animation table \<open>T\<close>.\<close>

definition overlay_get :: "string \<Rightarrow> js_value" where
  "overlay_get state =
     (case ZERO_SHOOT_ANIM_MAP state of Some s \<Rightarrow> JString s | None \<Rightarrow> inherited state)"

definition table_get :: "(string \<rightharpoonup> anim) \<Rightarrow> string \<Rightarrow> js_value" where
  "table_get T k = (case T k of Some a \<Rightarrow> JAnim a | None \<Rightarrow> inherited k)"

text \<open>
  \<^verbatim>\<open>if (shooting) { const shootState = ZERO_SHOOT_ANIM_MAP[state];
  if (shootState && ZERO_ANIMATIONS[shootState]) return ZERO_ANIMATIONS[shootState]; }
  return ZERO_ANIMATIONS[state] || ZERO_ANIMATIONS.idle;\<close>
\<close>

definition getZeroAnim :: "(string \<rightharpoonup> anim) \<Rightarrow> string \<Rightarrow> bool \<Rightarrow> js_value" where
  "getZeroAnim ZERO_ANIMATIONS state shooting =
     (let shootState = overlay_get state
      in if shooting \<and> truthy shootState
            \<and> truthy (table_get ZERO_ANIMATIONS (to_key shootState))
         then table_get ZERO_ANIMATIONS (to_key shootState)
         else if truthy (table_get ZERO_ANIMATIONS state)
              then table_get ZERO_ANIMATIONS state
              else table_get ZERO_ANIMATIONS ''idle'')"

text \<open>\<^verbatim>\<open>return SIGMA_ANIMATIONS[state] || SIGMA_ANIMATIONS.idle;\<close>\<close>

definition getSigmaAnim :: "(string \<rightharpoonup> anim) \<Rightarrow> string \<Rightarrow> js_value" where
  "getSigmaAnim SIGMA_ANIMATIONS state =
     (if truthy (table_get SIGMA_ANIMATIONS state)
      then table_get SIGMA_ANIMATIONS state
      else table_get SIGMA_ANIMATIONS ''idle'')"

section \<open>Notions used in the statements\<close>

text \<open>
  The anchor that a selected POI gives: its rounded coordinates, absent ones read as 0
  (\<^verbatim>\<open>int(round(poi.get('x', 0)))\<close>); no POI, no anchor.
\<close>

definition anchor_of :: "json_poi option \<Rightarrow> int option \<times> int option" where
  "anchor_of sel =
     (case sel of None \<Rightarrow> (None, None)
      | Some p \<Rightarrow> (Some (py_round (get_num (poi_x p))), Some (py_round (get_num (poi_y p)))))"

text \<open>The first and the last POI of a list that carry a given tag.\<close>

definition first_tagged :: "string \<Rightarrow> json_poi list \<Rightarrow> json_poi option" where
  "first_tagged tag ps = find (\<lambda>p. poi_tag p = tag) ps"

definition last_tagged :: "string \<Rightarrow> json_poi list \<Rightarrow> json_poi option" where
  "last_tagged tag ps = find (\<lambda>p. poi_tag p = tag) (rev ps)"

text \<open>
  \<^verbatim>\<open>round(durationSeconds * 60)\<close> as a number: exact on an int, and on a float the
  binary64 product rounded half to even.
\<close>

fun round_seconds :: "pynum \<Rightarrow> int" where
  "round_seconds (PInt n) = n * 60"
| "round_seconds (PFloat q) = round_half_even (to_double (q * 60))"

text \<open>
  A number is a valid index into a list when its value is a whole number from 0 up to
  the length of the list, excluded.
\<close>

definition valid_index :: "pynum \<Rightarrow> 'a list \<Rightarrow> bool" where
  "valid_index v xs =
     (of_int \<lfloor>num_val v\<rfloor> = num_val v \<and> 0 \<le> num_val v \<and> \<lfloor>num_val v\<rfloor> < int (length xs))"

section \<open>Example inputs\<close>

definition unit_rect :: json_rect where
  "unit_rect = \<lparr>topLeftPoint = Some \<lparr>pt_x = Some (PInt 0), pt_y = Some (PInt 0)\<rparr>,
               botRightPoint = Some \<lparr>pt_x = Some (PInt 1), pt_y = Some (PInt 1)\<rparr>\<rparr>"

text \<open>A frame with nothing but a rectangle and a duration.\<close>

definition plain_frame :: "pynum \<Rightarrow> json_frame" where
  "plain_frame d = \<lparr>rect = Some unit_rect, duration = Some d, offset = None,
                    POIs = None, hitboxes = None\<rparr>"

text \<open>
  A frame with two POIs of each primary tag: \<^verbatim>\<open>'b'\<close> at (1, 2) and (3, 4), the
  empty tag at (5, 6) and, the key \<^verbatim>\<open>tags\<close> being absent, at (7, 8); and a head POI.
\<close>

definition two_anchor_pois :: "json_poi list" where
  "two_anchor_pois =
     [\<lparr>tags = Some ''b'', poi_x = Some (PInt 1), poi_y = Some (PInt 2)\<rparr>,
      \<lparr>tags = Some '''', poi_x = Some (PInt 5), poi_y = Some (PInt 6)\<rparr>,
      \<lparr>tags = Some ''h'', poi_x = Some (PInt 9), poi_y = Some (PInt 9)\<rparr>,
      \<lparr>tags = Some ''b'', poi_x = Some (PInt 3), poi_y = Some (PInt 4)\<rparr>,
      \<lparr>tags = None, poi_x = Some (PInt 7), poi_y = Some (PInt 8)\<rparr>]"

definition two_anchor_frame :: json_frame where
  "two_anchor_frame = (plain_frame (PInt 1))\<lparr>POIs := Some two_anchor_pois\<rparr>"

definition two_anchor_anim :: json_anim where
  "two_anchor_anim =
     \<lparr>wrapMode = None, loopStartFrame = None, frames = Some [two_anchor_frame]\<rparr>"

text \<open>
  A rectangle with fractional corners, (2.5, 3) to (10.5, 7.75), and one whose left edge
  is at - 0.5, (- 0.5, 0) to (1.5, 2).
\<close>

definition fractional_rect :: json_rect where
  "fractional_rect =
     \<lparr>topLeftPoint = Some \<lparr>pt_x = Some (PFloat (5 / 2)), pt_y = Some (PInt 3)\<rparr>,
      botRightPoint = Some \<lparr>pt_x = Some (PFloat (21 / 2)), pt_y = Some (PFloat (31 / 4))\<rparr>\<rparr>"

definition fractional_rect_anim :: json_anim where
  "fractional_rect_anim =
     \<lparr>wrapMode = None, loopStartFrame = None,
      frames = Some [(plain_frame (PInt 1))\<lparr>rect := Some fractional_rect\<rparr>]\<rparr>"

definition negative_rect :: json_rect where
  "negative_rect =
     \<lparr>topLeftPoint = Some \<lparr>pt_x = Some (PFloat (- 1 / 2)), pt_y = Some (PInt 0)\<rparr>,
      botRightPoint = Some \<lparr>pt_x = Some (PFloat (3 / 2)), pt_y = Some (PInt 2)\<rparr>\<rparr>"

definition negative_rect_anim :: json_anim where
  "negative_rect_anim =
     \<lparr>wrapMode = None, loopStartFrame = None,
      frames = Some [(plain_frame (PInt 1))\<lparr>rect := Some negative_rect\<rparr>]\<rparr>"

text \<open>
  Three frames: one of 0.0166 seconds, one without a duration, one of half a second. The
  literal 0.0166 is read as the nearest binary64 value.
\<close>

definition timed_frames :: "json_frame list" where
  "timed_frames =
     [plain_frame (PFloat (to_double (166 / 10000))),
      (plain_frame (PInt 0))\<lparr>duration := None\<rparr>,
      plain_frame (PFloat (1 / 2))]"

definition timed_anim :: json_anim where
  "timed_anim = \<lparr>wrapMode = None, loopStartFrame = None, frames = Some timed_frames\<rparr>"

text \<open>
  Four hitboxes: a marker with flag 1; a damage hitbox with flag 0, fractional sizes and
  no y in its offset; one with the flag 0.0 whose sizes and offsets are all halves; and
  one that has no flag and no offset.
\<close>

definition marker_hitbox :: json_hitbox where
  "marker_hitbox =
     \<lparr>hb_flag = Some (PInt 1), hb_width = Some (PInt 99), hb_height = Some (PInt 99),
      hb_offset = Some \<lparr>pt_x = Some (PInt 9), pt_y = Some (PInt 9)\<rparr>\<rparr>"

definition damage_hitbox :: json_hitbox where
  "damage_hitbox =
     \<lparr>hb_flag = Some (PInt 0), hb_width = Some (PFloat (5 / 2)),
      hb_height = Some (PFloat (7 / 2)),
      hb_offset = Some \<lparr>pt_x = Some (PInt (- 3)), pt_y = None\<rparr>\<rparr>"

definition sized_hitbox :: json_hitbox where
  "sized_hitbox =
     \<lparr>hb_flag = Some (PFloat 0), hb_width = Some (PFloat (5 / 2)),
      hb_height = Some (PFloat (7 / 2)),
      hb_offset = Some \<lparr>pt_x = Some (PFloat (- 5 / 2)), pt_y = Some (PFloat (15 / 2))\<rparr>\<rparr>"

definition unflagged_hitbox :: json_hitbox where
  "unflagged_hitbox =
     \<lparr>hb_flag = None, hb_width = Some (PInt 10), hb_height = Some (PInt 20),
      hb_offset = None\<rparr>"

definition damage_anim :: json_anim where
  "damage_anim =
     \<lparr>wrapMode = None, loopStartFrame = None,
      frames = Some [(plain_frame (PInt 1))
                       \<lparr>hitboxes := Some [marker_hitbox, sized_hitbox, unflagged_hitbox]\<rparr>]\<rparr>"

definition unflagged_anim :: json_anim where
  "unflagged_anim =
     \<lparr>wrapMode = None, loopStartFrame = None,
      frames = Some [(plain_frame (PInt 1))
                       \<lparr>hitboxes := Some ([marker_hitbox] @ unflagged_hitbox # [damage_hitbox])\<rparr>]\<rparr>"

text \<open>
  An attack of four frames of one second each; only the last has a hitbox in the JSON.
  And an attack of one frame.
\<close>

definition attack_frames :: "json_frame list" where
  "attack_frames =
     [plain_frame (PInt 1), plain_frame (PInt 1), plain_frame (PInt 1),
      (plain_frame (PInt 1))\<lparr>hitboxes := Some [damage_hitbox]\<rparr>]"

definition attack_anim :: json_anim where
  "attack_anim = \<lparr>wrapMode = None, loopStartFrame = None, frames = Some attack_frames\<rparr>"

definition short_attack_anim :: json_anim where
  "short_attack_anim =
     \<lparr>wrapMode = None, loopStartFrame = None, frames = Some [plain_frame (PInt 1)]\<rparr>"

text \<open>
  Two looping animations: the four frames above with the loop starting at frame 2, and a
  single frame with the loop start 5.
\<close>

definition loop_anim :: json_anim where
  "loop_anim =
     \<lparr>wrapMode = Some ''loop'', loopStartFrame = Some (PInt 2), frames = Some attack_frames\<rparr>"

definition loop_past_end_anim :: json_anim where
  "loop_past_end_anim =
     \<lparr>wrapMode = Some ''loop'', loopStartFrame = Some (PInt 5),
      frames = Some [plain_frame (PInt 1)]\<rparr>"

text \<open>A table of three animations, told apart by the duration of their only frame.\<close>

definition marked_anim :: "int \<Rightarrow> anim" where
  "marked_anim n =
     \<lparr>loop = False, loopStart = None,
      anim_frames = [\<lparr>sx = 0, sy = 0, sw = 1, sh = 1, dur = n, ox = None, oy = None,
                       hx = None, hy = None, atkBox = None\<rparr>]\<rparr>"

definition small_table :: "string \<rightharpoonup> anim" where
  "small_table =
     [''idle'' \<mapsto> marked_anim 1, ''run'' \<mapsto> marked_anim 2, ''run_shoot'' \<mapsto> marked_anim 3]"

section \<open>The number model\<close>

text \<open>
  What the definitions of the numbers compute: \<open>round_half_even\<close> is within a half of
  its argument, \<open>binary_exponent\<close> is the exponent of the leading bit, and \<open>to_double\<close>
  is within half a unit in the last place of its argument.
\<close>

lemma round_half_even_of_int: "round_half_even (of_int n) = n"
  by (simp add: round_half_even_def)

lemma round_half_even_nearest: "\<bar>of_int (round_half_even q) - q\<bar> \<le> 1 / 2"
proof -
  have "of_int \<lfloor>q\<rfloor> \<le> q" "q < of_int \<lfloor>q\<rfloor> + 1"
    by linarith+
  then show ?thesis
    by (auto simp: round_half_even_def Let_def abs_le_iff)
qed

lemma bit_length_bounds:
  "0 < n \<Longrightarrow> 2 ^ (bit_length n - 1) \<le> n \<and> n < 2 ^ bit_length n"
proof (induction n rule: bit_length.induct)
  case (1 n)
  show ?case
  proof (cases "n div 2 \<le> 0")
    case True
    with "1.prems" have "n = 1" by linarith
    then show ?thesis
      by (simp add: bit_length.simps[of 1] bit_length.simps[of 0])
  next
    case False
    then have pos: "0 < n div 2" by simp
    from "1.IH"[OF _ pos] "1.prems"
    have ih: "2 ^ (bit_length (n div 2) - 1) \<le> n div 2" "n div 2 < 2 ^ bit_length (n div 2)"
      by simp_all
    have bl: "bit_length n = Suc (bit_length (n div 2))"
      using "1.prems" by (subst bit_length.simps) simp
    have blpos: "0 < bit_length (n div 2)"
      using pos by (subst bit_length.simps) simp
    then obtain m where m: "bit_length (n div 2) = Suc m"
      by (cases "bit_length (n div 2)") simp_all
    from ih m have "2 * 2 ^ m \<le> 2 * (n div 2)" by simp
    also have "\<dots> \<le> n" by simp
    finally have lo: "2 ^ (bit_length n - 1) \<le> n"
      using bl m by simp
    from ih(2) have "n div 2 + 1 \<le> 2 ^ bit_length (n div 2)" by simp
    then have "2 * (n div 2) + 2 \<le> 2 * 2 ^ bit_length (n div 2)" by simp
    moreover have "n \<le> 2 * (n div 2) + 1" by simp
    ultimately have hi: "n < 2 ^ bit_length n"
      using bl by simp
    from lo hi show ?thesis by simp
  qed
qed


lemma pow2_powi: "pow2 k = 2 powi k"
proof (cases "0 \<le> k")
  case True
  then show ?thesis by (simp add: pow2_def power_int_def)
next
  case False
  have "(1::rat) / 2 ^ nat (- k) = inverse 2 ^ nat (- k)"
    by (simp add: power_one_over inverse_eq_divide)
  with False show ?thesis by (simp only: pow2_def power_int_def if_False)
qed

lemma pow2_pos: "0 < pow2 k"
  by (simp add: pow2_powi)

lemma pow2_diff: "pow2 (int a - int b) = 2 ^ a / 2 ^ b"
  by (simp add: pow2_powi power_int_diff)

lemma pow2_succ: "pow2 (k + 1) = 2 * pow2 k"
  by (simp add: pow2_powi power_int_add)

lemma pow2_pred: "pow2 (k - 1) = pow2 k / 2"
  by (simp add: pow2_powi power_int_diff)

lemma quotient_of_abs:
  assumes "q \<noteq> 0" and "quotient_of \<bar>q\<bar> = (n, d)"
  shows "0 < n" "0 < d" "\<bar>q\<bar> = of_int n / of_int d"
proof -
  show d: "0 < d" using assms(2) by (rule quotient_of_denom_pos)
  show eq: "\<bar>q\<bar> = of_int n / of_int d" using assms(2) by (rule quotient_of_div)
  have "0 < \<bar>q\<bar>" using assms(1) by simp
  with eq d show "0 < n"
    by (simp add: zero_less_divide_iff)
qed

lemma binary_exponent_bounds:
  assumes "q \<noteq> 0"
  shows "pow2 (binary_exponent q) \<le> \<bar>q\<bar> \<and> \<bar>q\<bar> < pow2 (binary_exponent q + 1)"
proof -
  obtain n d where nd: "quotient_of \<bar>q\<bar> = (n, d)"
    by (cases "quotient_of \<bar>q\<bar>")
  from quotient_of_abs[OF assms nd]
  have n: "0 < n" and d: "0 < d" and q: "\<bar>q\<bar> = of_int n / of_int d"
    by simp_all
  define k where "k = int (bit_length n) - int (bit_length d)"
  from bit_length_bounds[OF n] bit_length_bounds[OF d]
  have nb: "2 ^ (bit_length n - 1) \<le> n" "n < 2 ^ bit_length n"
    and db: "2 ^ (bit_length d - 1) \<le> d" "d < 2 ^ bit_length d"
    by simp_all
  have bn: "0 < bit_length n" using n by (subst bit_length.simps) simp
  have bd: "0 < bit_length d" using d by (subst bit_length.simps) simp
  have dpos: "(0::rat) < of_int d" using d by simp
  have npos: "(0::rat) < of_int n" using n by simp
  have upper: "\<bar>q\<bar> < pow2 (k + 1)"
  proof -
    have "(of_int n :: rat) < 2 ^ bit_length n"
      using nb(2) by (metis of_int_less_iff of_int_numeral of_int_power)
    moreover have "(2::rat) ^ (bit_length d - 1) \<le> of_int d"
      using db(1) by (metis of_int_le_iff of_int_numeral of_int_power)
    ultimately have "of_int n / of_int d < (2::rat) ^ bit_length n / 2 ^ (bit_length d - 1)"
      using dpos npos by (intro frac_less) simp_all
    also have "\<dots> = pow2 (int (bit_length n) - int (bit_length d - 1))"
      by (simp add: pow2_diff)
    also have "int (bit_length n) - int (bit_length d - 1) = k + 1"
      using bd by (simp add: k_def of_nat_diff)
    finally show ?thesis using q by simp
  qed
  have lower: "pow2 (k - 1) \<le> \<bar>q\<bar>"
  proof -
    have "(2::rat) ^ (bit_length n - 1) \<le> of_int n"
      using nb(1) by (metis of_int_le_iff of_int_numeral of_int_power)
    moreover have "(of_int d :: rat) < 2 ^ bit_length d"
      using db(2) by (metis of_int_less_iff of_int_numeral of_int_power)
    ultimately have "(2::rat) ^ (bit_length n - 1) / 2 ^ bit_length d \<le> of_int n / of_int d"
      using dpos npos by (intro frac_le) simp_all
    moreover have "(2::rat) ^ (bit_length n - 1) / 2 ^ bit_length d
        = pow2 (int (bit_length n - 1) - int (bit_length d))"
      by (simp add: pow2_diff)
    moreover have "int (bit_length n - 1) - int (bit_length d) = k - 1"
      using bn by (simp add: k_def of_nat_diff)
    ultimately show ?thesis using q by simp
  qed
  have e: "binary_exponent q = (if pow2 k \<le> \<bar>q\<bar> then k else k - 1)"
    by (simp add: binary_exponent_def nd k_def Let_def)
  show ?thesis
  proof (cases "pow2 k \<le> \<bar>q\<bar>")
    case True
    with e upper show ?thesis by simp
  next
    case False
    with e lower show ?thesis by simp
  qed
qed


lemma to_double_error:
  "\<bar>to_double q - q\<bar> \<le> pow2 (max (binary_exponent q) (- 1022) - 53)"
proof (cases "q = 0")
  case True
  then show ?thesis
    by (simp add: to_double_def less_imp_le pow2_pos)
next
  case False
  define e where "e = max (binary_exponent q) (- 1022)"
  define u where "u = pow2 (e - 52)"
  have u: "0 < u" by (simp add: u_def pow2_pos)
  have td: "to_double q = of_int (round_half_even (q / u)) * u"
    using False by (simp add: to_double_def Let_def e_def u_def)
  have "to_double q - q = (of_int (round_half_even (q / u)) - q / u) * u"
    using u by (simp add: td algebra_simps)
  then have "\<bar>to_double q - q\<bar> = \<bar>of_int (round_half_even (q / u)) - q / u\<bar> * u"
    using u by (simp add: abs_mult)
  also have "\<dots> \<le> (1 / 2) * u"
    using u round_half_even_nearest[of "q / u"] by (intro mult_right_mono) simp_all
  also have "\<dots> = pow2 (e - 53)"
    using pow2_pred[of "e - 52"] by (simp add: u_def)
  finally show ?thesis by (simp add: e_def)
qed

section \<open>The loops\<close>

lemma get_list_simps [simp]: "get_list None = []" "get_list (Some l) = l"
  by (simp_all add: get_list_def)

lemma get_num_simps [simp]: "get_num None = PInt 0" "get_num (Some n) = n"
  by (simp_all add: get_num_def)

lemma filter_head_find:
  "(case filter P xs of [] \<Rightarrow> a | x # _ \<Rightarrow> f x) = (case find P xs of None \<Rightarrow> a | Some x \<Rightarrow> f x)"
  by (induction xs) auto

lemma find_rev_filter: "find P (rev (filter P xs)) = find P (rev xs)"
  by (induction xs rule: rev_induct) auto

lemma find_filter: "find P (filter P xs) = find P xs"
  by (induction xs) auto

lemma set_anchor_twice: "set_anchor (set_anchor fd p) q = set_anchor fd q"
  by (simp add: set_anchor_def)

text \<open>
  Each matching POI overwrites the anchor set by the one before, so the loop leaves the
  anchor of the last match.
\<close>

lemma foldl_zero_poi_step:
  "foldl zero_poi_step fd ps =
     (case last_tagged ''b'' ps of None \<Rightarrow> fd | Some p \<Rightarrow> set_anchor fd p)"
  unfolding last_tagged_def
  by (induction ps rule: rev_induct)
     (auto simp: zero_poi_step_def set_anchor_twice split: option.splits)

lemma foldl_sigma_poi_step:
  "foldl sigma_poi_step fd ps =
     (case last_tagged '''' ps of None \<Rightarrow> fd | Some p \<Rightarrow> set_anchor fd p)"
  unfolding last_tagged_def
  by (induction ps rule: rev_induct)
     (auto simp: sigma_poi_step_def set_anchor_twice split: option.splits)

lemma set_json_atk_box_find:
  "set_json_atk_box fr fd =
     (case find is_active (get_list (hitboxes fr)) of None \<Rightarrow> fd
      | Some hb \<Rightarrow> fd\<lparr>atkBox := Some (box_of hb)\<rparr>)"
  by (simp add: set_json_atk_box_def filter_head_find)

text \<open>The compiled frames are the source frames converted one by one, in order.\<close>

lemma zero_frames_nth:
  "zero_frames frs = Inr fds \<Longrightarrow>
     length fds = length frs \<and> (\<forall>i<length frs. zero_frame (frs ! i) = Inr (fds ! i))"
proof (induction frs arbitrary: fds)
  case Nil
  then show ?case by simp
next
  case (Cons fr frs)
  then show ?case
    by (auto split: sum.splits simp: nth_Cons split: nat.splits)
qed

lemma sigma_frames_nth:
  "sigma_frames durs boxes name k frs = Inr fds \<Longrightarrow>
     length fds = length frs \<and>
     (\<forall>i<length frs. sigma_frame durs boxes name (k + i) (frs ! i) = Inr (fds ! i))"
proof (induction frs arbitrary: fds k)
  case Nil
  then show ?case by simp
next
  case (Cons fr frs)
  from Cons.prems obtain fd fds' where
    first: "sigma_frame durs boxes name k fr = Inr fd" and
    rest: "sigma_frames durs boxes name (Suc k) frs = Inr fds'" and
    fds: "fds = fd # fds'"
    by (auto split: sum.splits)
  from Cons.IH[OF rest] have len: "length fds' = length frs" and
    ih: "\<And>i. i < length frs \<Longrightarrow>
           sigma_frame durs boxes name (Suc k + i) (frs ! i) = Inr (fds' ! i)"
    by simp_all
  show ?case
  proof (intro conjI allI impI)
    show "length fds = length (fr # frs)" using len fds by simp
  next
    fix i assume "i < length (fr # frs)"
    then show "sigma_frame durs boxes name (k + i) ((fr # frs) ! i) = Inr (fds ! i)"
      using first ih fds by (cases i) simp_all
  qed
qed

lemma zero_convert_anim_nth:
  assumes "zero_convert_anim name data = Inr a" and "frames data = Some frs"
  shows "length (anim_frames a) = length frs"
    and "i < length frs \<Longrightarrow> zero_frame (frs ! i) = Inr (anim_frames a ! i)"
  using assms zero_frames_nth
  by (auto simp: zero_convert_anim_def make_anim_def Let_def split: sum.splits)

lemma sigma_convert_anim_nth:
  assumes "sigma_convert_anim durs boxes name data = Inr a" and "frames data = Some frs"
  shows "length (anim_frames a) = length frs"
    and "i < length frs \<Longrightarrow> sigma_frame durs boxes name i (frs ! i) = Inr (anim_frames a ! i)"
  using assms sigma_frames_nth[of durs boxes name 0 frs]
  by (auto simp: sigma_convert_anim_def make_anim_def Let_def split: sum.splits)

section \<open>One frame\<close>

lemma set_anchor_fields [simp]:
  "sx (set_anchor fd p) = sx fd" "sy (set_anchor fd p) = sy fd"
  "sw (set_anchor fd p) = sw fd" "sh (set_anchor fd p) = sh fd"
  "dur (set_anchor fd p) = dur fd" "ox (set_anchor fd p) = ox fd"
  "oy (set_anchor fd p) = oy fd" "atkBox (set_anchor fd p) = atkBox fd"
  "(hx (set_anchor fd p), hy (set_anchor fd p)) = anchor_of (Some p)"
  by (simp_all add: set_anchor_def anchor_of_def)

lemma base_frame_fields [simp]:
  "sx (base_frame (x0, y0, w0, h0) d fr) = x0" "sy (base_frame (x0, y0, w0, h0) d fr) = y0"
  "sw (base_frame (x0, y0, w0, h0) d fr) = w0" "sh (base_frame (x0, y0, w0, h0) d fr) = h0"
  "dur (base_frame r d fr) = d"
  "hx (base_frame r d fr) = None" "hy (base_frame r d fr) = None"
  "atkBox (base_frame r d fr) = None"
  by (simp_all add: base_frame_def Let_def split: prod.splits)

lemma set_json_atk_box_fields [simp]:
  "sx (set_json_atk_box fr fd) = sx fd" "sy (set_json_atk_box fr fd) = sy fd"
  "sw (set_json_atk_box fr fd) = sw fd" "sh (set_json_atk_box fr fd) = sh fd"
  "dur (set_json_atk_box fr fd) = dur fd" "ox (set_json_atk_box fr fd) = ox fd"
  "oy (set_json_atk_box fr fd) = oy fd" "hx (set_json_atk_box fr fd) = hx fd"
  "hy (set_json_atk_box fr fd) = hy fd"
  by (simp_all add: set_json_atk_box_find split: option.splits)

lemma zero_frame_Inr:
  "zero_frame fr = Inr fd \<Longrightarrow>
     \<exists>r d. frame_rect fr = Inr r \<and> frame_dur fr = Inr d \<and>
       fd = set_json_atk_box fr (foldl zero_poi_step (base_frame r d fr) (get_list (POIs fr)))"
  by (auto simp: zero_frame_def split: sum.splits)

lemma sigma_frame_Inr:
  "sigma_frame durs boxes name i fr = Inr fd \<Longrightarrow>
     \<exists>r d. frame_rect fr = Inr r \<and> frame_dur fr = Inr d \<and>
       fd = (let fd' = set_json_atk_box fr
                (foldl sigma_poi_step
                   (base_frame r (case override durs name i of None \<Rightarrow> d | Some m \<Rightarrow> m) fr)
                   (get_list (POIs fr)))
             in case override boxes name i of None \<Rightarrow> fd' | Some b \<Rightarrow> fd'\<lparr>atkBox := Some b\<rparr>)"
  by (auto simp: sigma_frame_def Let_def split: sum.splits)

subsection \<open>The anchor\<close>

lemma zero_frame_anchor:
  "zero_frame fr = Inr fd \<Longrightarrow>
     (hx fd, hy fd) = anchor_of (last_tagged ''b'' (get_list (POIs fr)))"
  by (drule zero_frame_Inr)
     (auto simp: foldl_zero_poi_step anchor_of_def set_anchor_def split: option.splits)

lemma sigma_frame_anchor:
  "sigma_frame durs boxes name i fr = Inr fd \<Longrightarrow>
     (hx fd, hy fd) = anchor_of (last_tagged '''' (get_list (POIs fr)))"
  by (drule sigma_frame_Inr)
     (auto simp: foldl_sigma_poi_step anchor_of_def set_anchor_def Let_def
           split: option.splits)

lemma POIs_update_blocks [simp]:
  "frame_rect (fr\<lparr>POIs := v\<rparr>) = frame_rect fr"
  "frame_dur (fr\<lparr>POIs := v\<rparr>) = frame_dur fr"
  "base_frame r d (fr\<lparr>POIs := v\<rparr>) = base_frame r d fr"
  "set_json_atk_box (fr\<lparr>POIs := v\<rparr>) fd = set_json_atk_box fr fd"
  by (simp_all add: frame_rect_def frame_dur_def base_frame_def set_json_atk_box_def)

lemma last_tagged_filter:
  "last_tagged tag (filter (\<lambda>p. poi_tag p = tag) ps) = last_tagged tag ps"
  by (simp add: last_tagged_def find_rev_filter)

lemma zero_frame_other_tags:
  "zero_frame (fr\<lparr>POIs := Some (filter (\<lambda>p. poi_tag p = ''b'') (get_list (POIs fr)))\<rparr>)
     = zero_frame fr"
  by (simp add: zero_frame_def foldl_zero_poi_step last_tagged_filter Let_def
        split: sum.splits)

lemma sigma_frame_other_tags:
  "sigma_frame durs boxes name i
     (fr\<lparr>POIs := Some (filter (\<lambda>p. poi_tag p = '''') (get_list (POIs fr)))\<rparr>)
     = sigma_frame durs boxes name i fr"
  by (simp add: sigma_frame_def foldl_sigma_poi_step last_tagged_filter Let_def
        split: sum.splits)

section \<open>The converters return\<close>

text \<open>
  A frame is converted whenever its rectangle has its two corners with both coordinates
  and its duration, times 60, is finite: an int, a float whose product does not overflow,
  or absent. An animation is converted whenever it has a frame list and each of its frames
  is.
\<close>

lemma frame_rect_total:
  assumes "rect fr = Some \<lparr>topLeftPoint = Some \<lparr>pt_x = Some x1, pt_y = Some y1\<rparr>,
                           botRightPoint = Some \<lparr>pt_x = Some x2, pt_y = Some y2\<rparr>\<rparr>"
  shows "\<exists>r. frame_rect fr = Inr r"
  using assms by (simp add: frame_rect_def)

lemma default_duration_finite: "\<not> is_inf (to_double (to_double (66 / 1000) * 60))"
  by code_simp

lemma frame_dur_total:
  assumes "case duration fr of None \<Rightarrow> True | Some (PInt n) \<Rightarrow> True
           | Some (PFloat q) \<Rightarrow> \<not> is_inf (to_double (q * 60))"
  shows "\<exists>d. frame_dur fr = Inr d"
proof (cases "duration fr")
  case None
  then show ?thesis
    using default_duration_finite by (simp add: frame_dur_def Let_def)
next
  case (Some v)
  with assms show ?thesis
    by (cases v) (simp_all add: frame_dur_def Let_def)
qed

lemma zero_frame_total:
  "frame_rect fr = Inr r \<Longrightarrow> frame_dur fr = Inr d \<Longrightarrow> \<exists>fd. zero_frame fr = Inr fd"
  by (simp add: zero_frame_def)

lemma sigma_frame_total:
  "frame_rect fr = Inr r \<Longrightarrow> frame_dur fr = Inr d \<Longrightarrow>
     \<exists>fd. sigma_frame durs boxes name i fr = Inr fd"
  by (simp add: sigma_frame_def Let_def)

lemma zero_frames_total:
  "\<forall>fr\<in>set frs. \<exists>fd. zero_frame fr = Inr fd \<Longrightarrow> \<exists>fds. zero_frames frs = Inr fds"
  by (induction frs) auto

lemma sigma_frames_total:
  "\<forall>fr\<in>set frs. \<forall>i. \<exists>fd. sigma_frame durs boxes name i fr = Inr fd \<Longrightarrow>
     \<exists>fds. sigma_frames durs boxes name k frs = Inr fds"
proof (induction frs arbitrary: k)
  case Nil
  show ?case by simp
next
  case (Cons fr frs)
  from Cons.prems obtain fd where "sigma_frame durs boxes name k fr = Inr fd"
    by (meson list.set_intros(1))
  moreover from Cons.prems Cons.IH[of "Suc k"]
  obtain fds where "sigma_frames durs boxes name (Suc k) frs = Inr fds"
    by auto
  ultimately show ?case by simp
qed

lemma convert_anim_total:
  assumes "frames data = Some frs"
    and "\<forall>fr\<in>set frs. (\<exists>r. frame_rect fr = Inr r) \<and> (\<exists>d. frame_dur fr = Inr d)"
  shows "\<exists>a. zero_convert_anim name data = Inr a"
    and "\<exists>a. sigma_convert_anim durs boxes name data = Inr a"
proof -
  from assms(2) have "\<forall>fr\<in>set frs. \<exists>fd. zero_frame fr = Inr fd"
    using zero_frame_total by blast
  from zero_frames_total[OF this] assms(1)
  show "\<exists>a. zero_convert_anim name data = Inr a"
    by (auto simp: zero_convert_anim_def)
  from assms(2) have "\<forall>fr\<in>set frs. \<forall>i. \<exists>fd. sigma_frame durs boxes name i fr = Inr fd"
    using sigma_frame_total by blast
  from sigma_frames_total[OF this, of 0] assms(1)
  show "\<exists>a. sigma_convert_anim durs boxes name data = Inr a"
    by (auto simp: sigma_convert_anim_def)
qed

section \<open>The anchor of a frame\<close>

text \<open>
  Claim C1, as amended. The compiled anchor (hx, hy) of every frame is the rounded position
  of the last POI of the frame whose tag is the character's primary tag (\<^verbatim>\<open>'b'\<close> for
  Zero, the empty tag for Sigma, which is also the tag of a POI without \<^verbatim>\<open>tags\<close>):
  the loop over the POIs has no \<^verbatim>\<open>break\<close>, so each match overwrites the one before.
  When no POI matches, hx and hy are absent. POIs with another tag, the head tag
  \<^verbatim>\<open>'h'\<close> included, never affect the compiled frame: dropping them from the source
  frame leaves the conversion unchanged.
\<close>

theorem anchor_is_last_primary_poi:
  assumes "frames data = Some frs" and "i < length frs"
  shows "(zero_convert_anim name data = Inr a \<longrightarrow>
            (hx (anim_frames a ! i), hy (anim_frames a ! i))
              = anchor_of (last_tagged ''b'' (get_list (POIs (frs ! i)))))
       \<and> (sigma_convert_anim durs boxes name data = Inr a' \<longrightarrow>
            (hx (anim_frames a' ! i), hy (anim_frames a' ! i))
              = anchor_of (last_tagged '''' (get_list (POIs (frs ! i)))))
       \<and> zero_frame (fr\<lparr>POIs := Some (filter (\<lambda>p. poi_tag p = ''b'') (get_list (POIs fr)))\<rparr>)
              = zero_frame fr
       \<and> sigma_frame durs boxes name i
              (fr\<lparr>POIs := Some (filter (\<lambda>p. poi_tag p = '''') (get_list (POIs fr)))\<rparr>)
              = sigma_frame durs boxes name i fr"
proof (intro conjI impI)
  assume "zero_convert_anim name data = Inr a"
  from zero_convert_anim_nth(2)[OF this assms]
  show "(hx (anim_frames a ! i), hy (anim_frames a ! i))
          = anchor_of (last_tagged ''b'' (get_list (POIs (frs ! i))))"
    by (rule zero_frame_anchor)
next
  assume "sigma_convert_anim durs boxes name data = Inr a'"
  from sigma_convert_anim_nth(2)[OF this assms]
  show "(hx (anim_frames a' ! i), hy (anim_frames a' ! i))
          = anchor_of (last_tagged '''' (get_list (POIs (frs ! i))))"
    by (rule sigma_frame_anchor)
qed (rule zero_frame_other_tags sigma_frame_other_tags)+

theorem anchor_is_last_primary_poi_witness:
  "frames two_anchor_anim = Some [two_anchor_frame] \<and> 0 < length [two_anchor_frame]
   \<and> zero_convert_anim ''shoot'' two_anchor_anim
       = Inr \<lparr>loop = False, loopStart = None,
              anim_frames = [\<lparr>sx = 0, sy = 0, sw = 1, sh = 1, dur = 60, ox = None, oy = None,
                               hx = Some 3, hy = Some 4, atkBox = None\<rparr>]\<rparr>
   \<and> anchor_of (last_tagged ''b'' (get_list (POIs ([two_anchor_frame] ! 0)))) = (Some 3, Some 4)
   \<and> sigma_convert_anim MANUAL_DURATIONS MANUAL_ATK_BOXES ''shoot'' two_anchor_anim
       = Inr \<lparr>loop = False, loopStart = None,
              anim_frames = [\<lparr>sx = 0, sy = 0, sw = 1, sh = 1, dur = 60, ox = None, oy = None,
                               hx = Some 7, hy = Some 8, atkBox = None\<rparr>]\<rparr>
   \<and> anchor_of (last_tagged '''' (get_list (POIs ([two_anchor_frame] ! 0)))) = (Some 7, Some 8)"
proof -
  have h1: "frames two_anchor_anim = Some [two_anchor_frame]"
    by (simp add: two_anchor_anim_def)
  have h2: "0 < length [two_anchor_frame]"
    by simp
  have z: "zero_convert_anim ''shoot'' two_anchor_anim
       = Inr \<lparr>loop = False, loopStart = None,
              anim_frames = [\<lparr>sx = 0, sy = 0, sw = 1, sh = 1, dur = 60, ox = None, oy = None,
                               hx = Some 3, hy = Some 4, atkBox = None\<rparr>]\<rparr>"
    by code_simp
  have s: "sigma_convert_anim MANUAL_DURATIONS MANUAL_ATK_BOXES ''shoot'' two_anchor_anim
       = Inr \<lparr>loop = False, loopStart = None,
              anim_frames = [\<lparr>sx = 0, sy = 0, sw = 1, sh = 1, dur = 60, ox = None, oy = None,
                               hx = Some 7, hy = Some 8, atkBox = None\<rparr>]\<rparr>"
    by code_simp
  from anchor_is_last_primary_poi [OF h1 h2, where name = "''shoot''"
      and durs = MANUAL_DURATIONS and boxes = MANUAL_ATK_BOXES and fr = two_anchor_frame
      and a = "\<lparr>loop = False, loopStart = None,
              anim_frames = [\<lparr>sx = 0, sy = 0, sw = 1, sh = 1, dur = 60, ox = None, oy = None,
                               hx = Some 3, hy = Some 4, atkBox = None\<rparr>]\<rparr>"
      and a' = "\<lparr>loop = False, loopStart = None,
              anim_frames = [\<lparr>sx = 0, sy = 0, sw = 1, sh = 1, dur = 60, ox = None, oy = None,
                               hx = Some 7, hy = Some 8, atkBox = None\<rparr>]\<rparr>"] z s h1 h2
  show ?thesis by simp
qed

text \<open>
  The claim as stated fails: on the frame with two POIs tagged \<^verbatim>\<open>'b'\<close>, the first at
  (1, 2) and a later one at (3, 4), the compiled anchor is (3, 4).
\<close>

theorem anchor_first_poi_counterexample:
  "zero_convert_anim ''shoot'' two_anchor_anim
     = Inr \<lparr>loop = False, loopStart = None,
            anim_frames = [\<lparr>sx = 0, sy = 0, sw = 1, sh = 1, dur = 60, ox = None, oy = None,
                             hx = Some 3, hy = Some 4, atkBox = None\<rparr>]\<rparr>
   \<and> anchor_of (first_tagged ''b'' two_anchor_pois) = (Some 1, Some 2)
   \<and> frames two_anchor_anim = Some [(plain_frame (PInt 1))\<lparr>POIs := Some two_anchor_pois\<rparr>]"
  by code_simp

section \<open>The rectangle of a frame\<close>

lemma trunc_zero_of_int [simp]: "trunc_zero (of_int n) = n"
  by (simp add: trunc_zero_def)

lemma py_int_trunc: "py_int v = trunc_zero (num_val v)"
  by (cases v) simp_all

lemma trunc_zero_nonneg: "0 \<le> q \<Longrightarrow> trunc_zero q = \<lfloor>q\<rfloor>"
  by (simp add: trunc_zero_def)

lemma frame_rect_corners:
  assumes "rect fr = Some \<lparr>topLeftPoint = Some \<lparr>pt_x = Some x1, pt_y = Some y1\<rparr>,
                           botRightPoint = Some \<lparr>pt_x = Some x2, pt_y = Some y2\<rparr>\<rparr>"
  shows "frame_rect fr = Inr (trunc_zero (num_val x1), trunc_zero (num_val y1),
           trunc_zero (num_val x2) - trunc_zero (num_val x1),
           trunc_zero (num_val y2) - trunc_zero (num_val y1))"
  using assms by (simp add: frame_rect_def py_int_trunc)

lemma zero_frame_rect:
  "zero_frame fr = Inr fd \<Longrightarrow> frame_rect fr = Inr (sx fd, sy fd, sw fd, sh fd)"
  by (drule zero_frame_Inr)
     (auto simp: foldl_zero_poi_step split: option.splits)

lemma sigma_frame_rect:
  "sigma_frame durs boxes name i fr = Inr fd \<Longrightarrow>
     frame_rect fr = Inr (sx fd, sy fd, sw fd, sh fd)"
  by (drule sigma_frame_Inr)
     (auto simp: foldl_sigma_poi_step Let_def split: option.splits)

text \<open>
  Claim C4, as amended. The compiled rectangle of every frame is x = trunc(topLeft.x),
  y = trunc(topLeft.y), width = trunc(botRight.x) - trunc(topLeft.x) and
  height = trunc(botRight.y) - trunc(topLeft.y), where trunc is Python's \<^verbatim>\<open>int()\<close>: it
  drops the fraction, rounding towards zero, and is applied to each corner coordinate on
  its own before the subtraction. On corner coordinates that are not negative this is the
  floor, so there the rectangle is the one the claim states.
\<close>

theorem rect_truncates_corners:
  assumes "frames data = Some frs" and "i < length frs"
    and "rect (frs ! i) = Some \<lparr>topLeftPoint = Some \<lparr>pt_x = Some x1, pt_y = Some y1\<rparr>,
                                 botRightPoint = Some \<lparr>pt_x = Some x2, pt_y = Some y2\<rparr>\<rparr>"
  shows "(zero_convert_anim name data = Inr a \<longrightarrow>
            (sx (anim_frames a ! i), sy (anim_frames a ! i),
             sw (anim_frames a ! i), sh (anim_frames a ! i))
            = (trunc_zero (num_val x1), trunc_zero (num_val y1),
               trunc_zero (num_val x2) - trunc_zero (num_val x1),
               trunc_zero (num_val y2) - trunc_zero (num_val y1)))
       \<and> (sigma_convert_anim durs boxes name data = Inr a' \<longrightarrow>
            (sx (anim_frames a' ! i), sy (anim_frames a' ! i),
             sw (anim_frames a' ! i), sh (anim_frames a' ! i))
            = (trunc_zero (num_val x1), trunc_zero (num_val y1),
               trunc_zero (num_val x2) - trunc_zero (num_val x1),
               trunc_zero (num_val y2) - trunc_zero (num_val y1)))
       \<and> (0 \<le> num_val x1 \<and> 0 \<le> num_val y1 \<and> 0 \<le> num_val x2 \<and> 0 \<le> num_val y2 \<longrightarrow>
            (trunc_zero (num_val x1), trunc_zero (num_val y1),
             trunc_zero (num_val x2) - trunc_zero (num_val x1),
             trunc_zero (num_val y2) - trunc_zero (num_val y1))
            = (\<lfloor>num_val x1\<rfloor>, \<lfloor>num_val y1\<rfloor>,
               \<lfloor>num_val x2\<rfloor> - \<lfloor>num_val x1\<rfloor>, \<lfloor>num_val y2\<rfloor> - \<lfloor>num_val y1\<rfloor>))"
proof (intro conjI impI)
  assume "zero_convert_anim name data = Inr a"
  from zero_convert_anim_nth(2)[OF this assms(1,2)]
  have "frame_rect (frs ! i) = Inr (sx (anim_frames a ! i), sy (anim_frames a ! i),
          sw (anim_frames a ! i), sh (anim_frames a ! i))"
    by (rule zero_frame_rect)
  with frame_rect_corners[OF assms(3)]
  show "(sx (anim_frames a ! i), sy (anim_frames a ! i),
         sw (anim_frames a ! i), sh (anim_frames a ! i))
        = (trunc_zero (num_val x1), trunc_zero (num_val y1),
           trunc_zero (num_val x2) - trunc_zero (num_val x1),
           trunc_zero (num_val y2) - trunc_zero (num_val y1))"
    by simp
next
  assume "sigma_convert_anim durs boxes name data = Inr a'"
  from sigma_convert_anim_nth(2)[OF this assms(1,2)]
  have "frame_rect (frs ! i) = Inr (sx (anim_frames a' ! i), sy (anim_frames a' ! i),
          sw (anim_frames a' ! i), sh (anim_frames a' ! i))"
    by (rule sigma_frame_rect)
  with frame_rect_corners[OF assms(3)]
  show "(sx (anim_frames a' ! i), sy (anim_frames a' ! i),
         sw (anim_frames a' ! i), sh (anim_frames a' ! i))
        = (trunc_zero (num_val x1), trunc_zero (num_val y1),
           trunc_zero (num_val x2) - trunc_zero (num_val x1),
           trunc_zero (num_val y2) - trunc_zero (num_val y1))"
    by simp
next
  assume "0 \<le> num_val x1 \<and> 0 \<le> num_val y1 \<and> 0 \<le> num_val x2 \<and> 0 \<le> num_val y2"
  then show "(trunc_zero (num_val x1), trunc_zero (num_val y1),
             trunc_zero (num_val x2) - trunc_zero (num_val x1),
             trunc_zero (num_val y2) - trunc_zero (num_val y1))
            = (\<lfloor>num_val x1\<rfloor>, \<lfloor>num_val y1\<rfloor>,
               \<lfloor>num_val x2\<rfloor> - \<lfloor>num_val x1\<rfloor>, \<lfloor>num_val y2\<rfloor> - \<lfloor>num_val y1\<rfloor>)"
    by (simp add: trunc_zero_nonneg)
qed

theorem rect_truncates_corners_witness:
  "frames fractional_rect_anim = Some [(plain_frame (PInt 1))\<lparr>rect := Some fractional_rect\<rparr>]
   \<and> 0 < length [(plain_frame (PInt 1))\<lparr>rect := Some fractional_rect\<rparr>]
   \<and> rect ([(plain_frame (PInt 1))\<lparr>rect := Some fractional_rect\<rparr>] ! 0)
       = Some \<lparr>topLeftPoint = Some \<lparr>pt_x = Some (PFloat (5 / 2)), pt_y = Some (PInt 3)\<rparr>,
               botRightPoint = Some \<lparr>pt_x = Some (PFloat (21 / 2)),
                                      pt_y = Some (PFloat (31 / 4))\<rparr>\<rparr>
   \<and> zero_convert_anim ''idle'' fractional_rect_anim
       = Inr \<lparr>loop = False, loopStart = None,
              anim_frames = [\<lparr>sx = 2, sy = 3, sw = 8, sh = 4, dur = 60, ox = None, oy = None,
                               hx = None, hy = None, atkBox = None\<rparr>]\<rparr>
   \<and> sigma_convert_anim MANUAL_DURATIONS MANUAL_ATK_BOXES ''idle'' fractional_rect_anim
       = Inr \<lparr>loop = False, loopStart = None,
              anim_frames = [\<lparr>sx = 2, sy = 3, sw = 8, sh = 4, dur = 60, ox = None, oy = None,
                               hx = None, hy = None, atkBox = None\<rparr>]\<rparr>
   \<and> 0 \<le> num_val (PFloat (5 / 2)) \<and> 0 \<le> num_val (PInt 3)
   \<and> 0 \<le> num_val (PFloat (21 / 2)) \<and> 0 \<le> num_val (PFloat (31 / 4))
   \<and> (trunc_zero (num_val (PFloat (5 / 2))), trunc_zero (num_val (PInt 3)),
       trunc_zero (num_val (PFloat (21 / 2))) - trunc_zero (num_val (PFloat (5 / 2))),
       trunc_zero (num_val (PFloat (31 / 4))) - trunc_zero (num_val (PInt 3)))
      = (2, 3, 8, 4)
   \<and> (\<lfloor>num_val (PFloat (5 / 2))\<rfloor>, \<lfloor>num_val (PInt 3)\<rfloor>,
       \<lfloor>num_val (PFloat (21 / 2))\<rfloor> - \<lfloor>num_val (PFloat (5 / 2))\<rfloor>,
       \<lfloor>num_val (PFloat (31 / 4))\<rfloor> - \<lfloor>num_val (PInt 3)\<rfloor>)
      = (2, 3, 8, 4)"
proof -
  let ?fr = "(plain_frame (PInt 1))\<lparr>rect := Some fractional_rect\<rparr>"
  let ?out = "\<lparr>loop = False, loopStart = None,
              anim_frames = [\<lparr>sx = 2, sy = 3, sw = 8, sh = 4, dur = 60, ox = None, oy = None,
                               hx = None, hy = None, atkBox = None\<rparr>]\<rparr>"
  have h1: "frames fractional_rect_anim = Some [?fr]"
    by (simp add: fractional_rect_anim_def)
  have h2: "0 < length [?fr]"
    by simp
  have h3: "rect ([?fr] ! 0)
       = Some \<lparr>topLeftPoint = Some \<lparr>pt_x = Some (PFloat (5 / 2)), pt_y = Some (PInt 3)\<rparr>,
               botRightPoint = Some \<lparr>pt_x = Some (PFloat (21 / 2)),
                                      pt_y = Some (PFloat (31 / 4))\<rparr>\<rparr>"
    by (simp add: fractional_rect_def)
  have z: "zero_convert_anim ''idle'' fractional_rect_anim = Inr ?out"
    by code_simp
  have s: "sigma_convert_anim MANUAL_DURATIONS MANUAL_ATK_BOXES ''idle'' fractional_rect_anim
             = Inr ?out"
    by code_simp
  have nonneg: "0 \<le> num_val (PFloat (5 / 2)) \<and> 0 \<le> num_val (PInt 3)
     \<and> 0 \<le> num_val (PFloat (21 / 2)) \<and> 0 \<le> num_val (PFloat (31 / 4))"
    by simp
  from rect_truncates_corners [OF h1 h2 h3, where name = "''idle''" and a = ?out
      and a' = ?out and durs = MANUAL_DURATIONS and boxes = MANUAL_ATK_BOXES]
    z s h1 h2 h3 nonneg
  show ?thesis by simp
qed

text \<open>
  The claim as stated fails on a corner with a negative fraction: for the rectangle from
  (- 0.5, 0) to (1.5, 2) the compiled x is 0 and the width 1, where the floor gives
  x = - 1 and width 2.
\<close>

theorem rect_floor_counterexample:
  "zero_convert_anim ''idle'' negative_rect_anim
     = Inr \<lparr>loop = False, loopStart = None,
            anim_frames = [\<lparr>sx = 0, sy = 0, sw = 1, sh = 2, dur = 60, ox = None, oy = None,
                             hx = None, hy = None, atkBox = None\<rparr>]\<rparr>
   \<and> frames negative_rect_anim = Some [(plain_frame (PInt 1))\<lparr>rect := Some negative_rect\<rparr>]
   \<and> topLeftPoint negative_rect = Some \<lparr>pt_x = Some (PFloat (- 1 / 2)), pt_y = Some (PInt 0)\<rparr>
   \<and> botRightPoint negative_rect = Some \<lparr>pt_x = Some (PFloat (3 / 2)), pt_y = Some (PInt 2)\<rparr>
   \<and> \<lfloor>num_val (PFloat (- 1 / 2))\<rfloor> = - 1
   \<and> \<lfloor>num_val (PFloat (3 / 2))\<rfloor> - \<lfloor>num_val (PFloat (- 1 / 2))\<rfloor> = 2"
  by code_simp

section \<open>The duration of a frame\<close>

lemma py_round_mul_60: "py_round_mul v 60 = Inr r \<Longrightarrow> r = round_seconds v"
  by (cases v) (auto simp: Let_def split: if_splits)

lemma frame_dur_Inr:
  "frame_dur fr = Inr d \<Longrightarrow>
     d = max 1 (round_seconds
                  (case duration fr of None \<Rightarrow> PFloat (to_double (66 / 1000)) | Some s \<Rightarrow> s))"
  by (auto simp: frame_dur_def Let_def split: sum.splits dest: py_round_mul_60)

lemma zero_frame_dur: "zero_frame fr = Inr fd \<Longrightarrow> frame_dur fr = Inr (dur fd)"
  by (drule zero_frame_Inr)
     (auto simp: foldl_zero_poi_step split: option.splits)

lemma sigma_frame_dur:
  "sigma_frame durs boxes name i fr = Inr fd \<Longrightarrow>
     (case override durs name i of None \<Rightarrow> frame_dur fr = Inr (dur fd) | Some m \<Rightarrow> dur fd = m)"
  by (drule sigma_frame_Inr)
     (auto simp: foldl_sigma_poi_step Let_def split: option.splits)

text \<open>
  Claim C3. With no duration override on the frame (Zero's converter has no override
  table), the compiled duration is \<^verbatim>\<open>round(durationSeconds * 60)\<close> clamped below at 1,
  with 0.066 for durationSeconds when the source omits the field. Here
  \<^verbatim>\<open>round(durationSeconds * 60)\<close> is \<open>round_seconds\<close>: Python's product and Python's
  rounding. In particular a frame of 0.0166 seconds (the binary64 value nearest to it)
  compiles to the duration 1: the product is 0.996, which rounds to 1.
\<close>

theorem duration_from_seconds:
  assumes "frames data = Some frs" and "i < length frs"
  shows "(zero_convert_anim name data = Inr a \<longrightarrow>
            dur (anim_frames a ! i)
              = max 1 (round_seconds (case duration (frs ! i) of
                                        None \<Rightarrow> PFloat (to_double (66 / 1000)) | Some s \<Rightarrow> s)))
       \<and> (sigma_convert_anim durs boxes name data = Inr a' \<and> override durs name i = None \<longrightarrow>
            dur (anim_frames a' ! i)
              = max 1 (round_seconds (case duration (frs ! i) of
                                        None \<Rightarrow> PFloat (to_double (66 / 1000)) | Some s \<Rightarrow> s)))
       \<and> max 1 (round_seconds (PFloat (to_double (166 / 10000)))) = 1"
proof (intro conjI impI)
  show "max 1 (round_seconds (PFloat (to_double (166 / 10000)))) = 1"
    by code_simp
next
  assume "zero_convert_anim name data = Inr a"
  from zero_convert_anim_nth(2)[OF this assms]
  have "frame_dur (frs ! i) = Inr (dur (anim_frames a ! i))"
    by (rule zero_frame_dur)
  then show "dur (anim_frames a ! i)
      = max 1 (round_seconds (case duration (frs ! i) of
                                None \<Rightarrow> PFloat (to_double (66 / 1000)) | Some s \<Rightarrow> s))"
    by (rule frame_dur_Inr)
next
  assume both: "sigma_convert_anim durs boxes name data = Inr a' \<and> override durs name i = None"
  then have "sigma_frame durs boxes name i (frs ! i) = Inr (anim_frames a' ! i)"
    using sigma_convert_anim_nth(2) assms by blast
  from sigma_frame_dur[OF this] both
  have "frame_dur (frs ! i) = Inr (dur (anim_frames a' ! i))"
    by simp
  then show "dur (anim_frames a' ! i)
      = max 1 (round_seconds (case duration (frs ! i) of
                                None \<Rightarrow> PFloat (to_double (66 / 1000)) | Some s \<Rightarrow> s))"
    by (rule frame_dur_Inr)
qed

theorem duration_from_seconds_witness:
  "frames timed_anim = Some timed_frames \<and> 0 < length timed_frames
   \<and> duration (timed_frames ! 0) = Some (PFloat (to_double (166 / 10000)))
   \<and> zero_convert_anim ''idle'' timed_anim
       = Inr \<lparr>loop = False, loopStart = None,
              anim_frames = [\<lparr>sx = 0, sy = 0, sw = 1, sh = 1, dur = 1, ox = None, oy = None,
                               hx = None, hy = None, atkBox = None\<rparr>,
                             \<lparr>sx = 0, sy = 0, sw = 1, sh = 1, dur = 4, ox = None, oy = None,
                               hx = None, hy = None, atkBox = None\<rparr>,
                             \<lparr>sx = 0, sy = 0, sw = 1, sh = 1, dur = 30, ox = None, oy = None,
                               hx = None, hy = None, atkBox = None\<rparr>]\<rparr>
   \<and> sigma_convert_anim MANUAL_DURATIONS MANUAL_ATK_BOXES ''idle'' timed_anim
       = Inr \<lparr>loop = False, loopStart = None,
              anim_frames = [\<lparr>sx = 0, sy = 0, sw = 1, sh = 1, dur = 1, ox = None, oy = None,
                               hx = None, hy = None, atkBox = None\<rparr>,
                             \<lparr>sx = 0, sy = 0, sw = 1, sh = 1, dur = 4, ox = None, oy = None,
                               hx = None, hy = None, atkBox = None\<rparr>,
                             \<lparr>sx = 0, sy = 0, sw = 1, sh = 1, dur = 30, ox = None, oy = None,
                               hx = None, hy = None, atkBox = None\<rparr>]\<rparr>
   \<and> override MANUAL_DURATIONS ''idle'' 0 = None
   \<and> max 1 (round_seconds (case duration (timed_frames ! 0) of
                              None \<Rightarrow> PFloat (to_double (66 / 1000)) | Some s \<Rightarrow> s)) = 1"
proof -
  let ?out = "\<lparr>loop = False, loopStart = None,
              anim_frames = [\<lparr>sx = 0, sy = 0, sw = 1, sh = 1, dur = 1, ox = None, oy = None,
                               hx = None, hy = None, atkBox = None\<rparr>,
                             \<lparr>sx = 0, sy = 0, sw = 1, sh = 1, dur = 4, ox = None, oy = None,
                               hx = None, hy = None, atkBox = None\<rparr>,
                             \<lparr>sx = 0, sy = 0, sw = 1, sh = 1, dur = 30, ox = None, oy = None,
                               hx = None, hy = None, atkBox = None\<rparr>]\<rparr>"
  have h1: "frames timed_anim = Some timed_frames"
    by (simp add: timed_anim_def)
  have h2: "0 < length timed_frames"
    by (simp add: timed_frames_def)
  have d0: "duration (timed_frames ! 0) = Some (PFloat (to_double (166 / 10000)))"
    by (simp add: timed_frames_def plain_frame_def)
  have z: "zero_convert_anim ''idle'' timed_anim = Inr ?out"
    by code_simp
  have s: "sigma_convert_anim MANUAL_DURATIONS MANUAL_ATK_BOXES ''idle'' timed_anim = Inr ?out"
    by code_simp
  have no: "override MANUAL_DURATIONS ''idle'' 0 = None"
    by (simp add: override_def MANUAL_DURATIONS_def)
  from duration_from_seconds [OF h1 h2, where name = "''idle''" and a = ?out and a' = ?out
      and durs = MANUAL_DURATIONS and boxes = MANUAL_ATK_BOXES] z s no h1 h2 d0
  show ?thesis by simp
qed

section \<open>The attack box of a frame\<close>

lemma is_active_iff:
  "is_active hb = (case hb_flag hb of None \<Rightarrow> True | Some v \<Rightarrow> num_val v = 0)"
proof (cases "hb_flag hb")
  case None
  then show ?thesis by (simp add: is_active_def)
next
  case (Some v)
  then show ?thesis by (cases v) (simp_all add: is_active_def)
qed

lemma atkBox_set_json_atk_box:
  "atkBox (set_json_atk_box fr fd)
     = (case find is_active (get_list (hitboxes fr)) of None \<Rightarrow> atkBox fd
        | Some hb \<Rightarrow> Some (box_of hb))"
  by (simp add: set_json_atk_box_find split: option.splits)

lemma atkBox_foldl_poi_step [simp]:
  "atkBox (foldl zero_poi_step fd ps) = atkBox fd"
  "atkBox (foldl sigma_poi_step fd ps) = atkBox fd"
  by (simp_all add: foldl_zero_poi_step foldl_sigma_poi_step split: option.splits)

lemma zero_frame_atk_box:
  assumes "zero_frame fr = Inr fd"
  shows "atkBox fd = map_option box_of (find is_active (get_list (hitboxes fr)))"
proof -
  from zero_frame_Inr[OF assms] obtain r d where
    "fd = set_json_atk_box fr (foldl zero_poi_step (base_frame r d fr) (get_list (POIs fr)))"
    by blast
  then show ?thesis
    by (simp add: atkBox_set_json_atk_box split: option.splits)
qed

lemma sigma_frame_atk_box:
  assumes "sigma_frame durs boxes name i fr = Inr fd"
  shows "atkBox fd = (case override boxes name i of
                        None \<Rightarrow> map_option box_of (find is_active (get_list (hitboxes fr)))
                      | Some b \<Rightarrow> Some b)"
proof -
  from sigma_frame_Inr[OF assms] obtain r d where
    "fd = (let fd' = set_json_atk_box fr
                (foldl sigma_poi_step
                   (base_frame r (case override durs name i of None \<Rightarrow> d | Some m \<Rightarrow> m) fr)
                   (get_list (POIs fr)))
           in case override boxes name i of None \<Rightarrow> fd' | Some b \<Rightarrow> fd'\<lparr>atkBox := Some b\<rparr>)"
    by blast
  then show ?thesis
    by (simp add: atkBox_set_json_atk_box Let_def split: option.splits)
qed

lemma hitboxes_update_blocks [simp]:
  "frame_rect (fr\<lparr>hitboxes := v\<rparr>) = frame_rect fr"
  "frame_dur (fr\<lparr>hitboxes := v\<rparr>) = frame_dur fr"
  "base_frame r d (fr\<lparr>hitboxes := v\<rparr>) = base_frame r d fr"
  by (simp_all add: frame_rect_def frame_dur_def base_frame_def)

lemma set_json_atk_box_filter:
  "set_json_atk_box (fr\<lparr>hitboxes := Some (filter is_active (get_list (hitboxes fr)))\<rparr>) fd
     = set_json_atk_box fr fd"
  by (simp add: set_json_atk_box_def)

lemma zero_frame_other_flags:
  "zero_frame (fr\<lparr>hitboxes := Some (filter is_active (get_list (hitboxes fr)))\<rparr>)
     = zero_frame fr"
  by (simp add: zero_frame_def set_json_atk_box_filter Let_def split: sum.splits)

lemma sigma_frame_other_flags:
  "sigma_frame durs boxes name i
     (fr\<lparr>hitboxes := Some (filter is_active (get_list (hitboxes fr)))\<rparr>)
     = sigma_frame durs boxes name i fr"
  by (simp add: sigma_frame_def set_json_atk_box_filter Let_def split: sum.splits)

lemma py_round_val: "py_round v = round_half_even (num_val v)"
  by (cases v) (simp_all add: round_half_even_of_int)

lemma round_half_even_0: "round_half_even 0 = 0"
  using round_half_even_of_int[of 0] by simp

lemma box_of_rounded:
  "box_of hb =
     \<lparr>ab_w = (case hb_width hb of None \<Rightarrow> 0 | Some v \<Rightarrow> round_half_even (num_val v)),
      ab_h = (case hb_height hb of None \<Rightarrow> 0 | Some v \<Rightarrow> round_half_even (num_val v)),
      ab_ox = (case hb_offset hb of None \<Rightarrow> 0
               | Some p \<Rightarrow> (case pt_x p of None \<Rightarrow> 0 | Some v \<Rightarrow> round_half_even (num_val v))),
      ab_oy = (case hb_offset hb of None \<Rightarrow> 0
               | Some p \<Rightarrow> (case pt_y p of None \<Rightarrow> 0 | Some v \<Rightarrow> round_half_even (num_val v)))\<rparr>"
  by (simp add: box_of_def get_point_def py_round_val round_half_even_0 Let_def
        split: option.splits)

text \<open>
  Claim C7. With no attack-box override on the frame (Zero's converter has none), the
  compiled attack box is taken from the first hitbox of the frame, in source order, whose
  flag equals 0, a hitbox without a flag counting as flag 0: its w is the width, its h
  the height, its ox and oy the x and y of the offset, each rounded to the nearest integer
  (a tie to the even one) and read as 0 when the field is absent. When no hitbox has flag
  0, atkBox is absent. Hitboxes with another flag never contribute: dropping them from
  the source frame leaves the conversion unchanged.
\<close>

theorem atk_box_is_first_damage_hitbox:
  assumes "frames data = Some frs" and "i < length frs"
  shows "(zero_convert_anim name data = Inr a \<longrightarrow>
            atkBox (anim_frames a ! i)
              = (case find is_active (get_list (hitboxes (frs ! i))) of
                   None \<Rightarrow> None
                 | Some hb \<Rightarrow>
                     Some \<lparr>ab_w = (case hb_width hb of None \<Rightarrow> 0
                                    | Some v \<Rightarrow> round_half_even (num_val v)),
                           ab_h = (case hb_height hb of None \<Rightarrow> 0
                                    | Some v \<Rightarrow> round_half_even (num_val v)),
                           ab_ox = (case hb_offset hb of None \<Rightarrow> 0
                                    | Some p \<Rightarrow> (case pt_x p of None \<Rightarrow> 0
                                                | Some v \<Rightarrow> round_half_even (num_val v))),
                           ab_oy = (case hb_offset hb of None \<Rightarrow> 0
                                    | Some p \<Rightarrow> (case pt_y p of None \<Rightarrow> 0
                                                | Some v \<Rightarrow> round_half_even (num_val v)))\<rparr>))
       \<and> (sigma_convert_anim durs boxes name data = Inr a' \<and> override boxes name i = None \<longrightarrow>
            atkBox (anim_frames a' ! i)
              = (case find is_active (get_list (hitboxes (frs ! i))) of
                   None \<Rightarrow> None
                 | Some hb \<Rightarrow>
                     Some \<lparr>ab_w = (case hb_width hb of None \<Rightarrow> 0
                                    | Some v \<Rightarrow> round_half_even (num_val v)),
                           ab_h = (case hb_height hb of None \<Rightarrow> 0
                                    | Some v \<Rightarrow> round_half_even (num_val v)),
                           ab_ox = (case hb_offset hb of None \<Rightarrow> 0
                                    | Some p \<Rightarrow> (case pt_x p of None \<Rightarrow> 0
                                                | Some v \<Rightarrow> round_half_even (num_val v))),
                           ab_oy = (case hb_offset hb of None \<Rightarrow> 0
                                    | Some p \<Rightarrow> (case pt_y p of None \<Rightarrow> 0
                                                | Some v \<Rightarrow> round_half_even (num_val v)))\<rparr>))
       \<and> zero_frame (fr\<lparr>hitboxes := Some (filter is_active (get_list (hitboxes fr)))\<rparr>)
            = zero_frame fr
       \<and> sigma_frame durs boxes name i
            (fr\<lparr>hitboxes := Some (filter is_active (get_list (hitboxes fr)))\<rparr>)
            = sigma_frame durs boxes name i fr
       \<and> is_active h = (case hb_flag h of None \<Rightarrow> True | Some v \<Rightarrow> num_val v = 0)"
proof (intro conjI impI)
  assume "zero_convert_anim name data = Inr a"
  from zero_convert_anim_nth(2)[OF this assms]
  have "atkBox (anim_frames a ! i)
          = map_option box_of (find is_active (get_list (hitboxes (frs ! i))))"
    by (rule zero_frame_atk_box)
  then show "atkBox (anim_frames a ! i)
      = (case find is_active (get_list (hitboxes (frs ! i))) of
           None \<Rightarrow> None
         | Some hb \<Rightarrow>
             Some \<lparr>ab_w = (case hb_width hb of None \<Rightarrow> 0
                            | Some v \<Rightarrow> round_half_even (num_val v)),
                   ab_h = (case hb_height hb of None \<Rightarrow> 0
                            | Some v \<Rightarrow> round_half_even (num_val v)),
                   ab_ox = (case hb_offset hb of None \<Rightarrow> 0
                            | Some p \<Rightarrow> (case pt_x p of None \<Rightarrow> 0
                                        | Some v \<Rightarrow> round_half_even (num_val v))),
                   ab_oy = (case hb_offset hb of None \<Rightarrow> 0
                            | Some p \<Rightarrow> (case pt_y p of None \<Rightarrow> 0
                                        | Some v \<Rightarrow> round_half_even (num_val v)))\<rparr>)"
    by (cases "find is_active (get_list (hitboxes (frs ! i)))")
       (simp_all add: box_of_rounded)
next
  assume both: "sigma_convert_anim durs boxes name data = Inr a' \<and> override boxes name i = None"
  then have "sigma_frame durs boxes name i (frs ! i) = Inr (anim_frames a' ! i)"
    using sigma_convert_anim_nth(2) assms by blast
  from sigma_frame_atk_box[OF this] both
  have "atkBox (anim_frames a' ! i)
          = map_option box_of (find is_active (get_list (hitboxes (frs ! i))))"
    by simp
  then show "atkBox (anim_frames a' ! i)
      = (case find is_active (get_list (hitboxes (frs ! i))) of
           None \<Rightarrow> None
         | Some hb \<Rightarrow>
             Some \<lparr>ab_w = (case hb_width hb of None \<Rightarrow> 0
                            | Some v \<Rightarrow> round_half_even (num_val v)),
                   ab_h = (case hb_height hb of None \<Rightarrow> 0
                            | Some v \<Rightarrow> round_half_even (num_val v)),
                   ab_ox = (case hb_offset hb of None \<Rightarrow> 0
                            | Some p \<Rightarrow> (case pt_x p of None \<Rightarrow> 0
                                        | Some v \<Rightarrow> round_half_even (num_val v))),
                   ab_oy = (case hb_offset hb of None \<Rightarrow> 0
                            | Some p \<Rightarrow> (case pt_y p of None \<Rightarrow> 0
                                        | Some v \<Rightarrow> round_half_even (num_val v)))\<rparr>)"
    by (cases "find is_active (get_list (hitboxes (frs ! i)))")
       (simp_all add: box_of_rounded)
qed (rule zero_frame_other_flags sigma_frame_other_flags is_active_iff)+

theorem atk_box_is_first_damage_hitbox_witness:
  "frames damage_anim
     = Some [(plain_frame (PInt 1))
               \<lparr>hitboxes := Some [marker_hitbox, sized_hitbox, unflagged_hitbox]\<rparr>]
   \<and> 0 < length [(plain_frame (PInt 1))
                   \<lparr>hitboxes := Some [marker_hitbox, sized_hitbox, unflagged_hitbox]\<rparr>]
   \<and> zero_convert_anim ''attack'' damage_anim
       = Inr \<lparr>loop = False, loopStart = None,
              anim_frames = [\<lparr>sx = 0, sy = 0, sw = 1, sh = 1, dur = 60, ox = None, oy = None,
                               hx = None, hy = None,
                               atkBox = Some \<lparr>ab_w = 2, ab_h = 4, ab_ox = - 2, ab_oy = 8\<rparr>\<rparr>]\<rparr>
   \<and> sigma_convert_anim MANUAL_DURATIONS MANUAL_ATK_BOXES ''dash'' damage_anim
       = Inr \<lparr>loop = False, loopStart = None,
              anim_frames = [\<lparr>sx = 0, sy = 0, sw = 1, sh = 1, dur = 60, ox = None, oy = None,
                               hx = None, hy = None,
                               atkBox = Some \<lparr>ab_w = 2, ab_h = 4, ab_ox = - 2, ab_oy = 8\<rparr>\<rparr>]\<rparr>
   \<and> override MANUAL_ATK_BOXES ''dash'' 0 = None
   \<and> find is_active [marker_hitbox, sized_hitbox, unflagged_hitbox] = Some sized_hitbox
   \<and> hb_width sized_hitbox = Some (PFloat (5 / 2))
   \<and> hb_height sized_hitbox = Some (PFloat (7 / 2))
   \<and> hb_offset sized_hitbox
       = Some \<lparr>pt_x = Some (PFloat (- 5 / 2)), pt_y = Some (PFloat (15 / 2))\<rparr>
   \<and> round_half_even (num_val (PFloat (5 / 2))) = 2
   \<and> round_half_even (num_val (PFloat (7 / 2))) = 4
   \<and> round_half_even (num_val (PFloat (- 5 / 2))) = - 2
   \<and> round_half_even (num_val (PFloat (15 / 2))) = 8"
proof -
  let ?fr = "(plain_frame (PInt 1))
               \<lparr>hitboxes := Some [marker_hitbox, sized_hitbox, unflagged_hitbox]\<rparr>"
  let ?out = "\<lparr>loop = False, loopStart = None,
              anim_frames = [\<lparr>sx = 0, sy = 0, sw = 1, sh = 1, dur = 60, ox = None, oy = None,
                               hx = None, hy = None,
                               atkBox = Some \<lparr>ab_w = 2, ab_h = 4, ab_ox = - 2, ab_oy = 8\<rparr>\<rparr>]\<rparr>"
  have h1: "frames damage_anim = Some [?fr]"
    by (simp add: damage_anim_def)
  have h2: "0 < length [?fr]"
    by simp
  have z: "zero_convert_anim ''attack'' damage_anim = Inr ?out"
    by code_simp
  have s: "sigma_convert_anim MANUAL_DURATIONS MANUAL_ATK_BOXES ''dash'' damage_anim = Inr ?out"
    by code_simp
  have no: "override MANUAL_ATK_BOXES ''dash'' 0 = None"
    by (simp add: override_def MANUAL_ATK_BOXES_def)
  have sel: "find is_active [marker_hitbox, sized_hitbox, unflagged_hitbox] = Some sized_hitbox"
    by (simp add: is_active_def marker_hitbox_def sized_hitbox_def)
  have fields: "hb_width sized_hitbox = Some (PFloat (5 / 2))
      \<and> hb_height sized_hitbox = Some (PFloat (7 / 2))
      \<and> hb_offset sized_hitbox
          = Some \<lparr>pt_x = Some (PFloat (- 5 / 2)), pt_y = Some (PFloat (15 / 2))\<rparr>"
    by (simp add: sized_hitbox_def)
  have hbs: "get_list (hitboxes ([?fr] ! 0)) = [marker_hitbox, sized_hitbox, unflagged_hitbox]"
    by simp
  from atk_box_is_first_damage_hitbox [OF h1 h2, where name = "''attack''" and a = ?out
      and durs = MANUAL_DURATIONS and boxes = MANUAL_ATK_BOXES] z
  have "atkBox (anim_frames ?out ! 0)
      = (case find is_active (get_list (hitboxes ([?fr] ! 0))) of
           None \<Rightarrow> None
         | Some hb \<Rightarrow>
             Some \<lparr>ab_w = (case hb_width hb of None \<Rightarrow> 0
                            | Some v \<Rightarrow> round_half_even (num_val v)),
                   ab_h = (case hb_height hb of None \<Rightarrow> 0
                            | Some v \<Rightarrow> round_half_even (num_val v)),
                   ab_ox = (case hb_offset hb of None \<Rightarrow> 0
                            | Some p \<Rightarrow> (case pt_x p of None \<Rightarrow> 0
                                        | Some v \<Rightarrow> round_half_even (num_val v))),
                   ab_oy = (case hb_offset hb of None \<Rightarrow> 0
                            | Some p \<Rightarrow> (case pt_y p of None \<Rightarrow> 0
                                        | Some v \<Rightarrow> round_half_even (num_val v)))\<rparr>)"
    by blast
  then have "round_half_even (num_val (PFloat (5 / 2))) = 2
      \<and> round_half_even (num_val (PFloat (7 / 2))) = 4
      \<and> round_half_even (num_val (PFloat (- 5 / 2))) = - 2
      \<and> round_half_even (num_val (PFloat (15 / 2))) = 8"
    unfolding hbs sel using fields by auto
  with h1 h2 z s no sel fields show ?thesis by simp
qed

lemma find_first_match:
  "\<forall>h\<in>set pre. \<not> P h \<Longrightarrow> P x \<Longrightarrow> find P (pre @ x # post) = Some x"
  by (induction pre) auto

lemma set_json_atk_box_first:
  assumes "hitboxes fr = Some (pre @ hb # post)"
    and "\<forall>h\<in>set pre. \<not> is_active h" and "is_active hb"
  shows "set_json_atk_box fr fd = fd\<lparr>atkBox := Some (box_of hb)\<rparr>"
  using assms by (simp add: set_json_atk_box_find find_first_match)

lemma unflagged_is_active: "hb_flag hb = None \<Longrightarrow> is_active hb"
  by (simp add: is_active_def)

lemma flag_update_box [simp]: "box_of (hb\<lparr>hb_flag := v\<rparr>) = box_of hb"
  by (simp add: box_of_def)

lemma flag_zero_is_active [simp]: "is_active (hb\<lparr>hb_flag := Some (PInt 0)\<rparr>)"
  by (simp add: is_active_def)

lemma set_json_atk_box_flag_zero:
  assumes "hitboxes fr = Some (pre @ hb # post)"
    and "\<forall>h\<in>set pre. \<not> is_active h" and "hb_flag hb = None"
  shows "set_json_atk_box (fr\<lparr>hitboxes := Some (pre @ hb\<lparr>hb_flag := Some (PInt 0)\<rparr> # post)\<rparr>) fd
           = set_json_atk_box fr fd"
proof -
  have "set_json_atk_box (fr\<lparr>hitboxes := Some (pre @ hb\<lparr>hb_flag := Some (PInt 0)\<rparr> # post)\<rparr>) fd
          = fd\<lparr>atkBox := Some (box_of (hb\<lparr>hb_flag := Some (PInt 0)\<rparr>))\<rparr>"
    using assms(2) by (intro set_json_atk_box_first[where pre = pre and post = post]) simp_all
  moreover have "set_json_atk_box fr fd = fd\<lparr>atkBox := Some (box_of hb)\<rparr>"
    using assms by (intro set_json_atk_box_first unflagged_is_active)
  ultimately show ?thesis by simp
qed

text \<open>
  Claim C10. A hitbox that omits the flag is read with flag 0
  (\<^verbatim>\<open>h.get('flag', 0) == 0\<close>), so it belongs to the damage class and can be selected: when
  no hitbox before it belongs to the class, it is the one that is compiled. Writing the
  flag 0 into it leaves the conversion of the frame unchanged.
\<close>

theorem unflagged_hitbox_is_damage:
  assumes "frames data = Some frs" and "i < length frs"
    and "hitboxes (frs ! i) = Some (pre @ hb # post)"
    and "hb_flag hb = None"
    and "\<forall>h\<in>set pre. \<not> is_active h"
  shows "is_active hb
       \<and> (zero_convert_anim name data = Inr a \<longrightarrow>
            atkBox (anim_frames a ! i) = Some (box_of hb))
       \<and> (sigma_convert_anim durs boxes name data = Inr a' \<and> override boxes name i = None \<longrightarrow>
            atkBox (anim_frames a' ! i) = Some (box_of hb))
       \<and> zero_frame ((frs ! i)\<lparr>hitboxes := Some (pre @ hb\<lparr>hb_flag := Some (PInt 0)\<rparr> # post)\<rparr>)
            = zero_frame (frs ! i)
       \<and> sigma_frame durs boxes name i
            ((frs ! i)\<lparr>hitboxes := Some (pre @ hb\<lparr>hb_flag := Some (PInt 0)\<rparr> # post)\<rparr>)
            = sigma_frame durs boxes name i (frs ! i)"
proof (intro conjI impI)
  show active: "is_active hb"
    using assms(4) by (rule unflagged_is_active)
  have first: "find is_active (get_list (hitboxes (frs ! i))) = Some hb"
    using assms(3,5) active by (simp add: find_first_match)
  {
    assume "zero_convert_anim name data = Inr a"
    from zero_convert_anim_nth(2)[OF this assms(1,2)]
    have "atkBox (anim_frames a ! i)
            = map_option box_of (find is_active (get_list (hitboxes (frs ! i))))"
      by (rule zero_frame_atk_box)
    with first show "atkBox (anim_frames a ! i) = Some (box_of hb)"
      by simp
  }
  {
    assume both: "sigma_convert_anim durs boxes name data = Inr a' \<and> override boxes name i = None"
    then have "sigma_frame durs boxes name i (frs ! i) = Inr (anim_frames a' ! i)"
      using sigma_convert_anim_nth(2) assms(1,2) by blast
    from sigma_frame_atk_box[OF this] both first
    show "atkBox (anim_frames a' ! i) = Some (box_of hb)"
      by simp
  }
  show "zero_frame ((frs ! i)\<lparr>hitboxes := Some (pre @ hb\<lparr>hb_flag := Some (PInt 0)\<rparr> # post)\<rparr>)
          = zero_frame (frs ! i)"
    by (simp add: zero_frame_def Let_def set_json_atk_box_flag_zero[OF assms(3,5,4)]
          split: sum.splits)
  show "sigma_frame durs boxes name i
          ((frs ! i)\<lparr>hitboxes := Some (pre @ hb\<lparr>hb_flag := Some (PInt 0)\<rparr> # post)\<rparr>)
          = sigma_frame durs boxes name i (frs ! i)"
    by (simp add: sigma_frame_def Let_def set_json_atk_box_flag_zero[OF assms(3,5,4)]
          split: sum.splits)
qed

theorem unflagged_hitbox_is_damage_witness:
  "frames unflagged_anim
     = Some [(plain_frame (PInt 1))
               \<lparr>hitboxes := Some ([marker_hitbox] @ unflagged_hitbox # [damage_hitbox])\<rparr>]
   \<and> 0 < length [(plain_frame (PInt 1))
                   \<lparr>hitboxes := Some ([marker_hitbox] @ unflagged_hitbox # [damage_hitbox])\<rparr>]
   \<and> hitboxes ([(plain_frame (PInt 1))
                  \<lparr>hitboxes := Some ([marker_hitbox] @ unflagged_hitbox # [damage_hitbox])\<rparr>] ! 0)
       = Some ([marker_hitbox] @ unflagged_hitbox # [damage_hitbox])
   \<and> hb_flag unflagged_hitbox = None
   \<and> set [marker_hitbox] = {marker_hitbox} \<and> \<not> is_active marker_hitbox
   \<and> is_active unflagged_hitbox
   \<and> zero_convert_anim ''attack'' unflagged_anim
       = Inr \<lparr>loop = False, loopStart = None,
              anim_frames = [\<lparr>sx = 0, sy = 0, sw = 1, sh = 1, dur = 60, ox = None, oy = None,
                               hx = None, hy = None,
                               atkBox = Some \<lparr>ab_w = 10, ab_h = 20, ab_ox = 0, ab_oy = 0\<rparr>\<rparr>]\<rparr>
   \<and> sigma_convert_anim MANUAL_DURATIONS MANUAL_ATK_BOXES ''dash'' unflagged_anim
       = Inr \<lparr>loop = False, loopStart = None,
              anim_frames = [\<lparr>sx = 0, sy = 0, sw = 1, sh = 1, dur = 60, ox = None, oy = None,
                               hx = None, hy = None,
                               atkBox = Some \<lparr>ab_w = 10, ab_h = 20, ab_ox = 0, ab_oy = 0\<rparr>\<rparr>]\<rparr>
   \<and> override MANUAL_ATK_BOXES ''dash'' 0 = None
   \<and> box_of unflagged_hitbox = \<lparr>ab_w = 10, ab_h = 20, ab_ox = 0, ab_oy = 0\<rparr>"
proof -
  let ?fr = "(plain_frame (PInt 1))
               \<lparr>hitboxes := Some ([marker_hitbox] @ unflagged_hitbox # [damage_hitbox])\<rparr>"
  let ?out = "\<lparr>loop = False, loopStart = None,
              anim_frames = [\<lparr>sx = 0, sy = 0, sw = 1, sh = 1, dur = 60, ox = None, oy = None,
                               hx = None, hy = None,
                               atkBox = Some \<lparr>ab_w = 10, ab_h = 20, ab_ox = 0, ab_oy = 0\<rparr>\<rparr>]\<rparr>"
  have h1: "frames unflagged_anim = Some [?fr]"
    by (simp add: unflagged_anim_def)
  have h2: "0 < length [?fr]"
    by simp
  have h3: "hitboxes ([?fr] ! 0) = Some ([marker_hitbox] @ unflagged_hitbox # [damage_hitbox])"
    by simp
  have h4: "hb_flag unflagged_hitbox = None"
    by (simp add: unflagged_hitbox_def)
  have h5: "\<forall>h\<in>set [marker_hitbox]. \<not> is_active h"
    by (simp add: marker_hitbox_def is_active_def)
  have z: "zero_convert_anim ''attack'' unflagged_anim = Inr ?out"
    by code_simp
  have s: "sigma_convert_anim MANUAL_DURATIONS MANUAL_ATK_BOXES ''dash'' unflagged_anim
             = Inr ?out"
    by code_simp
  have no: "override MANUAL_ATK_BOXES ''dash'' 0 = None"
    by (simp add: override_def MANUAL_ATK_BOXES_def)
  from unflagged_hitbox_is_damage [OF h1 h2 h3 h4 h5, where name = "''attack''"
      and a = ?out and a' = ?out and durs = MANUAL_DURATIONS and boxes = MANUAL_ATK_BOXES]
    z s no
  have "is_active unflagged_hitbox
        \<and> box_of unflagged_hitbox = \<lparr>ab_w = 10, ab_h = 20, ab_ox = 0, ab_oy = 0\<rparr>"
    by simp
  moreover have "set [marker_hitbox] = {marker_hitbox} \<and> \<not> is_active marker_hitbox"
    by (simp add: marker_hitbox_def is_active_def)
  ultimately show ?thesis using h1 h2 h3 h4 z s no by simp
qed

section \<open>The override tables\<close>

text \<open>
  Claim C5. For a frame whose (animation name, frame index) pair is in the duration
  table, the compiled duration is the table's value, whatever the value derived from the
  JSON; for one whose pair is in the attack-box table, the compiled attack box is the
  table's box, all four fields of it, whether or not the JSON of the frame has a damage
  hitbox.
\<close>

theorem overrides_replace_derived_values:
  assumes "frames data = Some frs" and "i < length frs"
    and "sigma_convert_anim durs boxes name data = Inr a"
  shows "(override durs name i = Some d \<longrightarrow> dur (anim_frames a ! i) = d)
       \<and> (override boxes name i = Some b \<longrightarrow> atkBox (anim_frames a ! i) = Some b)"
proof -
  have fr: "sigma_frame durs boxes name i (frs ! i) = Inr (anim_frames a ! i)"
    using sigma_convert_anim_nth(2)[OF assms(3,1,2)] .
  show ?thesis
    using sigma_frame_dur[OF fr] sigma_frame_atk_box[OF fr] by auto
qed

theorem overrides_replace_derived_values_witness:
  "frames attack_anim = Some attack_frames \<and> 3 < length attack_frames
   \<and> sigma_convert_anim MANUAL_DURATIONS MANUAL_ATK_BOXES ''attack'' attack_anim
       = Inr \<lparr>loop = False, loopStart = None,
              anim_frames =
                [\<lparr>sx = 0, sy = 0, sw = 1, sh = 1, dur = 2, ox = None, oy = None,
                  hx = None, hy = None, atkBox = None\<rparr>,
                 \<lparr>sx = 0, sy = 0, sw = 1, sh = 1, dur = 2, ox = None, oy = None,
                  hx = None, hy = None, atkBox = None\<rparr>,
                 \<lparr>sx = 0, sy = 0, sw = 1, sh = 1, dur = 3, ox = None, oy = None,
                  hx = None, hy = None,
                  atkBox = Some \<lparr>ab_w = 23, ab_h = 40, ab_ox = 30, ab_oy = - 32\<rparr>\<rparr>,
                 \<lparr>sx = 0, sy = 0, sw = 1, sh = 1, dur = 10, ox = None, oy = None,
                  hx = None, hy = None,
                  atkBox = Some \<lparr>ab_w = 23, ab_h = 40, ab_ox = 30, ab_oy = - 32\<rparr>\<rparr>]\<rparr>
   \<and> override MANUAL_DURATIONS ''attack'' 3 = Some 10
   \<and> override MANUAL_ATK_BOXES ''attack'' 3
       = Some \<lparr>ab_w = 23, ab_h = 40, ab_ox = 30, ab_oy = - 32\<rparr>
   \<and> hitboxes (attack_frames ! 3) = Some [damage_hitbox]
   \<and> frame_dur (attack_frames ! 3) = Inr 60"
proof -
  let ?out = "\<lparr>loop = False, loopStart = None,
              anim_frames =
                [\<lparr>sx = 0, sy = 0, sw = 1, sh = 1, dur = 2, ox = None, oy = None,
                  hx = None, hy = None, atkBox = None\<rparr>,
                 \<lparr>sx = 0, sy = 0, sw = 1, sh = 1, dur = 2, ox = None, oy = None,
                  hx = None, hy = None, atkBox = None\<rparr>,
                 \<lparr>sx = 0, sy = 0, sw = 1, sh = 1, dur = 3, ox = None, oy = None,
                  hx = None, hy = None,
                  atkBox = Some \<lparr>ab_w = 23, ab_h = 40, ab_ox = 30, ab_oy = - 32\<rparr>\<rparr>,
                 \<lparr>sx = 0, sy = 0, sw = 1, sh = 1, dur = 10, ox = None, oy = None,
                  hx = None, hy = None,
                  atkBox = Some \<lparr>ab_w = 23, ab_h = 40, ab_ox = 30, ab_oy = - 32\<rparr>\<rparr>]\<rparr>"
  have h1: "frames attack_anim = Some attack_frames"
    by (simp add: attack_anim_def)
  have h2: "3 < length attack_frames"
    by (simp add: attack_frames_def)
  have s: "sigma_convert_anim MANUAL_DURATIONS MANUAL_ATK_BOXES ''attack'' attack_anim = Inr ?out"
    by code_simp
  have d: "override MANUAL_DURATIONS ''attack'' 3 = Some 10"
    by (simp add: override_def MANUAL_DURATIONS_def)
  have b: "override MANUAL_ATK_BOXES ''attack'' 3
             = Some \<lparr>ab_w = 23, ab_h = 40, ab_ox = 30, ab_oy = - 32\<rparr>"
    by (simp add: override_def MANUAL_ATK_BOXES_def)
  have src: "hitboxes (attack_frames ! 3) = Some [damage_hitbox]
             \<and> frame_dur (attack_frames ! 3) = Inr 60"
    by code_simp
  from overrides_replace_derived_values [OF h1 h2 s, where d = 10
      and b = "\<lparr>ab_w = 23, ab_h = 40, ab_ox = 30, ab_oy = - 32\<rparr>"] h1 h2 s d b src
  show ?thesis by simp
qed

section \<open>Durations are positive\<close>

lemma frame_dur_ge1: "frame_dur fr = Inr d \<Longrightarrow> 1 \<le> d"
  by (auto simp: frame_dur_def Let_def split: sum.splits)

lemma MANUAL_DURATIONS_ge1: "override MANUAL_DURATIONS name i = Some d \<Longrightarrow> 1 \<le> d"
  by (auto simp: override_def MANUAL_DURATIONS_def split: if_splits)

lemma zero_frame_dur_ge1: "zero_frame fr = Inr fd \<Longrightarrow> 1 \<le> dur fd"
  by (drule zero_frame_dur) (rule frame_dur_ge1)

lemma sigma_frame_dur_ge1:
  "sigma_frame MANUAL_DURATIONS boxes name i fr = Inr fd \<Longrightarrow> 1 \<le> dur fd"
  by (drule sigma_frame_dur)
     (auto split: option.splits dest: frame_dur_ge1 MANUAL_DURATIONS_ge1)

lemma zero_convert_anim_frames:
  "zero_convert_anim name data = Inr a \<Longrightarrow> \<exists>frs. frames data = Some frs"
  by (auto simp: zero_convert_anim_def split: option.splits)

lemma sigma_convert_anim_frames:
  "sigma_convert_anim durs boxes name data = Inr a \<Longrightarrow> \<exists>frs. frames data = Some frs"
  by (auto simp: sigma_convert_anim_def split: option.splits)

text \<open>
  Claim C8. Every frame of every animation that either converter compiles has a duration
  of at least 1: a derived duration is clamped below at 1, and every entry of the module's
  duration table, which replaces it in Sigma's converter, is at least 2.
\<close>

theorem durations_at_least_one:
  "(zero_convert_anim name data = Inr a \<longrightarrow> (\<forall>f\<in>set (anim_frames a). 1 \<le> dur f))
   \<and> (sigma_convert_anim MANUAL_DURATIONS MANUAL_ATK_BOXES name data = Inr a' \<longrightarrow>
        (\<forall>f\<in>set (anim_frames a'). 1 \<le> dur f))"
proof (intro conjI impI ballI)
  fix f
  assume conv: "zero_convert_anim name data = Inr a" and "f \<in> set (anim_frames a)"
  then obtain i where i: "i < length (anim_frames a)" "f = anim_frames a ! i"
    by (auto simp: in_set_conv_nth)
  from zero_convert_anim_frames[OF conv] obtain frs where frs: "frames data = Some frs"
    by blast
  from zero_convert_anim_nth[OF conv frs] i
  have "zero_frame (frs ! i) = Inr f"
    by simp
  then show "1 \<le> dur f"
    by (rule zero_frame_dur_ge1)
next
  fix f
  assume conv: "sigma_convert_anim MANUAL_DURATIONS MANUAL_ATK_BOXES name data = Inr a'"
    and "f \<in> set (anim_frames a')"
  then obtain i where i: "i < length (anim_frames a')" "f = anim_frames a' ! i"
    by (auto simp: in_set_conv_nth)
  from sigma_convert_anim_frames[OF conv] obtain frs where frs: "frames data = Some frs"
    by blast
  from sigma_convert_anim_nth[OF conv frs] i
  have "sigma_frame MANUAL_DURATIONS MANUAL_ATK_BOXES name i (frs ! i) = Inr f"
    by simp
  then show "1 \<le> dur f"
    by (rule sigma_frame_dur_ge1)
qed

theorem durations_at_least_one_witness:
  "zero_convert_anim ''idle'' timed_anim
     = Inr \<lparr>loop = False, loopStart = None,
            anim_frames = [\<lparr>sx = 0, sy = 0, sw = 1, sh = 1, dur = 1, ox = None, oy = None,
                             hx = None, hy = None, atkBox = None\<rparr>,
                           \<lparr>sx = 0, sy = 0, sw = 1, sh = 1, dur = 4, ox = None, oy = None,
                             hx = None, hy = None, atkBox = None\<rparr>,
                           \<lparr>sx = 0, sy = 0, sw = 1, sh = 1, dur = 30, ox = None, oy = None,
                             hx = None, hy = None, atkBox = None\<rparr>]\<rparr>
   \<and> list_all (\<lambda>f. 1 \<le> dur f)
               [\<lparr>sx = 0, sy = 0, sw = 1, sh = 1, dur = 1, ox = None, oy = None,
                  hx = None, hy = None, atkBox = None\<rparr>,
                \<lparr>sx = 0, sy = 0, sw = 1, sh = 1, dur = 4, ox = None, oy = None,
                  hx = None, hy = None, atkBox = None\<rparr>,
                \<lparr>sx = 0, sy = 0, sw = 1, sh = 1, dur = 30, ox = None, oy = None,
                  hx = None, hy = None, atkBox = None\<rparr>]
   \<and> sigma_convert_anim MANUAL_DURATIONS MANUAL_ATK_BOXES ''attack'' attack_anim
       = Inr \<lparr>loop = False, loopStart = None,
              anim_frames =
                [\<lparr>sx = 0, sy = 0, sw = 1, sh = 1, dur = 2, ox = None, oy = None,
                  hx = None, hy = None, atkBox = None\<rparr>,
                 \<lparr>sx = 0, sy = 0, sw = 1, sh = 1, dur = 2, ox = None, oy = None,
                  hx = None, hy = None, atkBox = None\<rparr>,
                 \<lparr>sx = 0, sy = 0, sw = 1, sh = 1, dur = 3, ox = None, oy = None,
                  hx = None, hy = None,
                  atkBox = Some \<lparr>ab_w = 23, ab_h = 40, ab_ox = 30, ab_oy = - 32\<rparr>\<rparr>,
                 \<lparr>sx = 0, sy = 0, sw = 1, sh = 1, dur = 10, ox = None, oy = None,
                  hx = None, hy = None,
                  atkBox = Some \<lparr>ab_w = 23, ab_h = 40, ab_ox = 30, ab_oy = - 32\<rparr>\<rparr>]\<rparr>
   \<and> list_all (\<lambda>f. 1 \<le> dur f)
               [\<lparr>sx = 0, sy = 0, sw = 1, sh = 1, dur = 2, ox = None, oy = None,
                  hx = None, hy = None, atkBox = None\<rparr>,
                \<lparr>sx = 0, sy = 0, sw = 1, sh = 1, dur = 2, ox = None, oy = None,
                  hx = None, hy = None, atkBox = None\<rparr>,
                \<lparr>sx = 0, sy = 0, sw = 1, sh = 1, dur = 3, ox = None, oy = None,
                  hx = None, hy = None,
                  atkBox = Some \<lparr>ab_w = 23, ab_h = 40, ab_ox = 30, ab_oy = - 32\<rparr>\<rparr>,
                \<lparr>sx = 0, sy = 0, sw = 1, sh = 1, dur = 10, ox = None, oy = None,
                  hx = None, hy = None,
                  atkBox = Some \<lparr>ab_w = 23, ab_h = 40, ab_ox = 30, ab_oy = - 32\<rparr>\<rparr>]"
proof -
  let ?zout = "\<lparr>loop = False, loopStart = None,
            anim_frames = [\<lparr>sx = 0, sy = 0, sw = 1, sh = 1, dur = 1, ox = None, oy = None,
                             hx = None, hy = None, atkBox = None\<rparr>,
                           \<lparr>sx = 0, sy = 0, sw = 1, sh = 1, dur = 4, ox = None, oy = None,
                             hx = None, hy = None, atkBox = None\<rparr>,
                           \<lparr>sx = 0, sy = 0, sw = 1, sh = 1, dur = 30, ox = None, oy = None,
                             hx = None, hy = None, atkBox = None\<rparr>]\<rparr>"
  let ?sout = "\<lparr>loop = False, loopStart = None,
              anim_frames =
                [\<lparr>sx = 0, sy = 0, sw = 1, sh = 1, dur = 2, ox = None, oy = None,
                  hx = None, hy = None, atkBox = None\<rparr>,
                 \<lparr>sx = 0, sy = 0, sw = 1, sh = 1, dur = 2, ox = None, oy = None,
                  hx = None, hy = None, atkBox = None\<rparr>,
                 \<lparr>sx = 0, sy = 0, sw = 1, sh = 1, dur = 3, ox = None, oy = None,
                  hx = None, hy = None,
                  atkBox = Some \<lparr>ab_w = 23, ab_h = 40, ab_ox = 30, ab_oy = - 32\<rparr>\<rparr>,
                 \<lparr>sx = 0, sy = 0, sw = 1, sh = 1, dur = 10, ox = None, oy = None,
                  hx = None, hy = None,
                  atkBox = Some \<lparr>ab_w = 23, ab_h = 40, ab_ox = 30, ab_oy = - 32\<rparr>\<rparr>]\<rparr>"
  have z: "zero_convert_anim ''idle'' timed_anim = Inr ?zout"
    by code_simp
  have s: "sigma_convert_anim MANUAL_DURATIONS MANUAL_ATK_BOXES ''attack'' attack_anim = Inr ?sout"
    by code_simp
  have "(\<forall>f\<in>set (anim_frames ?zout). 1 \<le> dur f) \<and> (\<forall>f\<in>set (anim_frames ?sout). 1 \<le> dur f)"
    using durations_at_least_one [where name = "''idle''" and data = timed_anim and a = ?zout]
      durations_at_least_one [where name = "''attack''" and data = attack_anim and a' = ?sout]
      z s
    by blast
  then have "list_all (\<lambda>f. 1 \<le> dur f) (anim_frames ?zout)
             \<and> list_all (\<lambda>f. 1 \<le> dur f) (anim_frames ?sout)"
    by (simp only: list_all_iff)
  with z s show ?thesis by simp
qed

section \<open>Override entries without a frame\<close>

lemma sigma_frame_cong:
  "override durs' name i = override durs name i \<Longrightarrow>
   override boxes' name i = override boxes name i \<Longrightarrow>
     sigma_frame durs' boxes' name i fr = sigma_frame durs boxes name i fr"
  by (cases "frame_rect fr"; cases "frame_dur fr") (simp_all add: sigma_frame_def)

lemma sigma_frames_cong:
  "\<forall>i<length frs. override durs' name (k + i) = override durs name (k + i)
                  \<and> override boxes' name (k + i) = override boxes name (k + i) \<Longrightarrow>
     sigma_frames durs' boxes' name k frs = sigma_frames durs boxes name k frs"
proof (induction frs arbitrary: k)
  case Nil
  show ?case by simp
next
  case (Cons fr frs)
  have "0 < length (fr # frs)" by simp
  from Cons.prems[rule_format, OF this]
  have first: "sigma_frame durs' boxes' name k fr = sigma_frame durs boxes name k fr"
    by (intro sigma_frame_cong) simp_all
  have "\<forall>i<length frs. override durs' name (Suc k + i) = override durs name (Suc k + i)
                  \<and> override boxes' name (Suc k + i) = override boxes name (Suc k + i)"
  proof (intro allI impI)
    fix i assume "i < length frs"
    then have "Suc i < length (fr # frs)" by simp
    from Cons.prems[rule_format, OF this]
    show "override durs' name (Suc k + i) = override durs name (Suc k + i)
          \<and> override boxes' name (Suc k + i) = override boxes name (Suc k + i)"
      by simp
  qed
  from Cons.IH[OF this] have "sigma_frames durs' boxes' name (Suc k) frs
      = sigma_frames durs boxes name (Suc k) frs" .
  with first show ?case by (simp only: sigma_frames.simps)
qed

text \<open>Whether and how a frame fails does not depend on the tables or on its index.\<close>

lemma sigma_frame_Inl_iff:
  "(sigma_frame durs boxes name i fr = Inl e)
     = (case frame_rect fr of Inl e1 \<Rightarrow> e1 = e | Inr r \<Rightarrow> frame_dur fr = Inl e)"
  by (cases "frame_rect fr"; cases "frame_dur fr") (simp_all add: sigma_frame_def Let_def)

lemma sigma_frames_Inl:
  "(sigma_frames durs boxes name k frs = Inl e)
     = (sigma_frames durs' boxes' name k' frs = Inl e)"
proof (induction frs arbitrary: k k')
  case Nil
  show ?case by simp
next
  case (Cons fr frs)
  show ?case
  proof (cases "sigma_frame durs boxes name k fr")
    case (Inl e1)
    then have "sigma_frame durs' boxes' name k' fr = Inl e1"
      by (simp add: sigma_frame_Inl_iff)
    with Inl show ?thesis by simp
  next
    case (Inr fd)
    have "\<exists>fd'. sigma_frame durs' boxes' name k' fr = Inr fd'"
    proof (cases "sigma_frame durs' boxes' name k' fr")
      case (Inl e2)
      then have "sigma_frame durs boxes name k fr = Inl e2"
        by (simp add: sigma_frame_Inl_iff)
      with Inr show ?thesis by simp
    next
      case (Inr fd')
      then show ?thesis by blast
    qed
    then obtain fd' where other: "sigma_frame durs' boxes' name k' fr = Inr fd'"
      by blast
    have "(sigma_frames durs boxes name (Suc k) frs = Inl e)
            = (sigma_frames durs' boxes' name (Suc k') frs = Inl e)"
      by (rule Cons.IH)
    then show ?thesis
      using Inr other
      by (cases "sigma_frames durs boxes name (Suc k) frs";
          cases "sigma_frames durs' boxes' name (Suc k') frs") simp_all
  qed
qed

text \<open>
  Claim C2, as amended. An entry of an override table whose frame index has no frame in
  the animation's source frame list is silently ignored. Conversion with two pairs of
  tables that agree on the indices of the frames present gives the same result, whatever
  entries they hold beyond; and conversion fails with the tables exactly when, and with
  the same error as, it fails with empty tables. Neither converter checks the tables
  against the frame list.
\<close>

theorem override_without_frame_is_ignored:
  assumes "frames data = Some frs"
  shows "((\<forall>i<length frs. override durs' name i = override durs name i
                          \<and> override boxes' name i = override boxes name i) \<longrightarrow>
            sigma_convert_anim durs' boxes' name data = sigma_convert_anim durs boxes name data)
       \<and> (sigma_convert_anim durs boxes name data = Inl e)
            = (sigma_convert_anim Map.empty Map.empty name data = Inl e)"
proof (intro conjI impI)
  assume "\<forall>i<length frs. override durs' name i = override durs name i
                          \<and> override boxes' name i = override boxes name i"
  then have "sigma_frames durs' boxes' name 0 frs = sigma_frames durs boxes name 0 frs"
    by (intro sigma_frames_cong) simp
  with assms show "sigma_convert_anim durs' boxes' name data
                     = sigma_convert_anim durs boxes name data"
    by (simp add: sigma_convert_anim_def)
next
  show "(sigma_convert_anim durs boxes name data = Inl e)
          = (sigma_convert_anim Map.empty Map.empty name data = Inl e)"
    using assms sigma_frames_Inl[of durs boxes name 0 frs e Map.empty Map.empty 0]
    by (auto simp: sigma_convert_anim_def split: sum.splits)
qed

theorem override_without_frame_is_ignored_witness:
  "frames short_attack_anim = Some [plain_frame (PInt 1)]
   \<and> length [plain_frame (PInt 1)] = 1
   \<and> override MANUAL_DURATIONS ''attack'' 0 = override [''attack'' \<mapsto> [0 \<mapsto> 2]] ''attack'' 0
   \<and> override MANUAL_ATK_BOXES ''attack'' 0 = override Map.empty ''attack'' 0
   \<and> override MANUAL_DURATIONS ''attack'' 3 = Some 10
   \<and> override [''attack'' \<mapsto> [0 \<mapsto> 2]] ''attack'' 3 = None
   \<and> sigma_convert_anim MANUAL_DURATIONS MANUAL_ATK_BOXES ''attack'' short_attack_anim
       = sigma_convert_anim [''attack'' \<mapsto> [0 \<mapsto> 2]] Map.empty ''attack'' short_attack_anim
   \<and> sigma_convert_anim [''attack'' \<mapsto> [0 \<mapsto> 2]] Map.empty ''attack'' short_attack_anim
       = Inr \<lparr>loop = False, loopStart = None,
              anim_frames = [\<lparr>sx = 0, sy = 0, sw = 1, sh = 1, dur = 2, ox = None, oy = None,
                               hx = None, hy = None, atkBox = None\<rparr>]\<rparr>"
proof -
  have h1: "frames short_attack_anim = Some [plain_frame (PInt 1)]"
    by (simp add: short_attack_anim_def)
  have h2: "\<forall>i<length [plain_frame (PInt 1)].
        override MANUAL_DURATIONS ''attack'' i = override [''attack'' \<mapsto> [0 \<mapsto> 2]] ''attack'' i
        \<and> override MANUAL_ATK_BOXES ''attack'' i = override Map.empty ''attack'' i"
    by (simp add: override_def MANUAL_DURATIONS_def MANUAL_ATK_BOXES_def)
  have beyond: "override MANUAL_DURATIONS ''attack'' 3 = Some 10
                \<and> override [''attack'' \<mapsto> [0 \<mapsto> 2]] ''attack'' 3 = None"
    by (simp add: override_def MANUAL_DURATIONS_def)
  have s: "sigma_convert_anim [''attack'' \<mapsto> [0 \<mapsto> 2]] Map.empty ''attack'' short_attack_anim
       = Inr \<lparr>loop = False, loopStart = None,
              anim_frames = [\<lparr>sx = 0, sy = 0, sw = 1, sh = 1, dur = 2, ox = None, oy = None,
                               hx = None, hy = None, atkBox = None\<rparr>]\<rparr>"
    by code_simp
  from override_without_frame_is_ignored [OF h1, where durs' = MANUAL_DURATIONS
      and boxes' = MANUAL_ATK_BOXES and durs = "[''attack'' \<mapsto> [0 \<mapsto> 2]]"
      and boxes = Map.empty and name = "''attack''"] h2
  have "sigma_convert_anim MANUAL_DURATIONS MANUAL_ATK_BOXES ''attack'' short_attack_anim
       = sigma_convert_anim [''attack'' \<mapsto> [0 \<mapsto> 2]] Map.empty ''attack'' short_attack_anim"
    by blast
  moreover have "length [plain_frame (PInt 1)] = 1
      \<and> override MANUAL_DURATIONS ''attack'' 0 = override [''attack'' \<mapsto> [0 \<mapsto> 2]] ''attack'' 0
      \<and> override MANUAL_ATK_BOXES ''attack'' 0 = override Map.empty ''attack'' 0"
    by (simp add: override_def MANUAL_DURATIONS_def MANUAL_ATK_BOXES_def)
  ultimately show ?thesis using h1 beyond s by blast
qed

text \<open>
  The claim as stated fails: the module's duration table has an entry for frame 3 of
  \<^verbatim>\<open>'attack'\<close>, and the conversion of an \<^verbatim>\<open>'attack'\<close> of one frame succeeds.
\<close>

theorem override_without_frame_counterexample:
  "override MANUAL_DURATIONS ''attack'' 3 = Some 10
   \<and> frames short_attack_anim = Some [plain_frame (PInt 1)]
   \<and> sigma_convert_anim MANUAL_DURATIONS MANUAL_ATK_BOXES ''attack'' short_attack_anim
       = Inr \<lparr>loop = False, loopStart = None,
              anim_frames = [\<lparr>sx = 0, sy = 0, sw = 1, sh = 1, dur = 2, ox = None, oy = None,
                               hx = None, hy = None, atkBox = None\<rparr>]\<rparr>"
  by code_simp


section \<open>The loop start\<close>

lemma py_gt0_iff: "py_gt0 v = (0 < num_val v)"
  by (cases v) simp_all

lemma make_anim_loop_start:
  "loopStart (make_anim data fds) = Some v \<Longrightarrow>
     loop (make_anim data fds) \<and> wrapMode data = Some ''loop''
     \<and> loopStartFrame data = Some v \<and> 0 < num_val v"
  by (auto simp: make_anim_def Let_def py_gt0_iff get_num_def split: if_splits option.splits)

lemma zero_convert_anim_make:
  "zero_convert_anim name data = Inr a \<Longrightarrow> \<exists>fds. a = make_anim data fds"
  by (auto simp: zero_convert_anim_def split: option.splits sum.splits)

lemma sigma_convert_anim_make:
  "sigma_convert_anim durs boxes name data = Inr a \<Longrightarrow> \<exists>fds. a = make_anim data fds"
  by (auto simp: sigma_convert_anim_def split: option.splits sum.splits)

lemma valid_index_length: "length xs = length ys \<Longrightarrow> valid_index v xs = valid_index v ys"
  by (simp add: valid_index_def)

text \<open>
  Claim C9, as amended. When the loopStart field of a compiled animation is present, the
  animation loops and loopStart is the source's loopStartFrame, which is greater than 0.
  The compiled animation has as many frames as the source, so loopStart is a valid index
  into the frame sequence exactly when the source's loopStartFrame is a valid index into
  the source's frame list; neither converter compares the two.
\<close>

theorem loop_start_is_source_loop_start:
  assumes "frames data = Some frs"
  shows "(zero_convert_anim name data = Inr a \<and> loopStart a = Some v \<longrightarrow>
            loop a \<and> wrapMode data = Some ''loop'' \<and> loopStartFrame data = Some v
            \<and> 0 < num_val v \<and> length (anim_frames a) = length frs
            \<and> valid_index v (anim_frames a) = valid_index v frs)
       \<and> (sigma_convert_anim durs boxes name data = Inr a' \<and> loopStart a' = Some v' \<longrightarrow>
            loop a' \<and> wrapMode data = Some ''loop'' \<and> loopStartFrame data = Some v'
            \<and> 0 < num_val v' \<and> length (anim_frames a') = length frs
            \<and> valid_index v' (anim_frames a') = valid_index v' frs)"
proof (intro conjI impI)
  assume "zero_convert_anim name data = Inr a \<and> loopStart a = Some v"
  then have conv: "zero_convert_anim name data = Inr a" and v: "loopStart a = Some v"
    by simp_all
  from zero_convert_anim_make[OF conv] v make_anim_loop_start
  show "loop a" "wrapMode data = Some ''loop''" "loopStartFrame data = Some v" "0 < num_val v"
    by blast+
  show len: "length (anim_frames a) = length frs"
    using zero_convert_anim_nth(1)[OF conv assms] .
  then show "valid_index v (anim_frames a) = valid_index v frs"
    by (rule valid_index_length)
next
  assume "sigma_convert_anim durs boxes name data = Inr a' \<and> loopStart a' = Some v'"
  then have conv: "sigma_convert_anim durs boxes name data = Inr a'"
    and v: "loopStart a' = Some v'"
    by simp_all
  from sigma_convert_anim_make[OF conv] v make_anim_loop_start
  show "loop a'" "wrapMode data = Some ''loop''" "loopStartFrame data = Some v'"
    "0 < num_val v'"
    by blast+
  show len: "length (anim_frames a') = length frs"
    using sigma_convert_anim_nth(1)[OF conv assms] .
  then show "valid_index v' (anim_frames a') = valid_index v' frs"
    by (rule valid_index_length)
qed

theorem loop_start_is_source_loop_start_witness:
  "frames loop_anim = Some attack_frames
   \<and> zero_convert_anim ''run'' loop_anim
       = Inr \<lparr>loop = True, loopStart = Some (PInt 2),
              anim_frames =
                [\<lparr>sx = 0, sy = 0, sw = 1, sh = 1, dur = 60, ox = None, oy = None,
                  hx = None, hy = None, atkBox = None\<rparr>,
                 \<lparr>sx = 0, sy = 0, sw = 1, sh = 1, dur = 60, ox = None, oy = None,
                  hx = None, hy = None, atkBox = None\<rparr>,
                 \<lparr>sx = 0, sy = 0, sw = 1, sh = 1, dur = 60, ox = None, oy = None,
                  hx = None, hy = None, atkBox = None\<rparr>,
                 \<lparr>sx = 0, sy = 0, sw = 1, sh = 1, dur = 60, ox = None, oy = None,
                  hx = None, hy = None,
                  atkBox = Some \<lparr>ab_w = 2, ab_h = 4, ab_ox = - 3, ab_oy = 0\<rparr>\<rparr>]\<rparr>
   \<and> sigma_convert_anim MANUAL_DURATIONS MANUAL_ATK_BOXES ''run'' loop_anim
       = Inr \<lparr>loop = True, loopStart = Some (PInt 2),
              anim_frames =
                [\<lparr>sx = 0, sy = 0, sw = 1, sh = 1, dur = 60, ox = None, oy = None,
                  hx = None, hy = None, atkBox = None\<rparr>,
                 \<lparr>sx = 0, sy = 0, sw = 1, sh = 1, dur = 60, ox = None, oy = None,
                  hx = None, hy = None, atkBox = None\<rparr>,
                 \<lparr>sx = 0, sy = 0, sw = 1, sh = 1, dur = 60, ox = None, oy = None,
                  hx = None, hy = None, atkBox = None\<rparr>,
                 \<lparr>sx = 0, sy = 0, sw = 1, sh = 1, dur = 60, ox = None, oy = None,
                  hx = None, hy = None,
                  atkBox = Some \<lparr>ab_w = 2, ab_h = 4, ab_ox = - 3, ab_oy = 0\<rparr>\<rparr>]\<rparr>
   \<and> wrapMode loop_anim = Some ''loop'' \<and> loopStartFrame loop_anim = Some (PInt 2)
   \<and> 0 < num_val (PInt 2) \<and> valid_index (PInt 2) attack_frames"
proof -
  let ?out = "\<lparr>loop = True, loopStart = Some (PInt 2),
              anim_frames =
                [\<lparr>sx = 0, sy = 0, sw = 1, sh = 1, dur = 60, ox = None, oy = None,
                  hx = None, hy = None, atkBox = None\<rparr>,
                 \<lparr>sx = 0, sy = 0, sw = 1, sh = 1, dur = 60, ox = None, oy = None,
                  hx = None, hy = None, atkBox = None\<rparr>,
                 \<lparr>sx = 0, sy = 0, sw = 1, sh = 1, dur = 60, ox = None, oy = None,
                  hx = None, hy = None, atkBox = None\<rparr>,
                 \<lparr>sx = 0, sy = 0, sw = 1, sh = 1, dur = 60, ox = None, oy = None,
                  hx = None, hy = None,
                  atkBox = Some \<lparr>ab_w = 2, ab_h = 4, ab_ox = - 3, ab_oy = 0\<rparr>\<rparr>]\<rparr>"
  have h1: "frames loop_anim = Some attack_frames"
    by (simp add: loop_anim_def)
  have z: "zero_convert_anim ''run'' loop_anim = Inr ?out"
    by code_simp
  have s: "sigma_convert_anim MANUAL_DURATIONS MANUAL_ATK_BOXES ''run'' loop_anim = Inr ?out"
    by code_simp
  have v: "loopStart ?out = Some (PInt 2)"
    by simp
  have valid: "valid_index (PInt 2) (anim_frames ?out)"
    by (simp add: valid_index_def)
  from loop_start_is_source_loop_start [OF h1, where name = "''run''" and a = ?out
      and v = "PInt 2" and a' = ?out and v' = "PInt 2" and durs = MANUAL_DURATIONS
      and boxes = MANUAL_ATK_BOXES] z s v valid
  have "wrapMode loop_anim = Some ''loop'' \<and> loopStartFrame loop_anim = Some (PInt 2)
        \<and> 0 < num_val (PInt 2) \<and> valid_index (PInt 2) attack_frames"
    by blast
  with h1 z s show ?thesis by blast
qed

text \<open>
  The claim as stated fails: a looping source of one frame whose loopStartFrame is 5
  compiles to an animation of one frame with loopStart 5.
\<close>

theorem loop_start_valid_counterexample:
  "zero_convert_anim ''run'' loop_past_end_anim
     = Inr \<lparr>loop = True, loopStart = Some (PInt 5),
            anim_frames = [\<lparr>sx = 0, sy = 0, sw = 1, sh = 1, dur = 60, ox = None, oy = None,
                             hx = None, hy = None, atkBox = None\<rparr>]\<rparr>
   \<and> \<not> valid_index (PInt 5)
         [\<lparr>sx = 0, sy = 0, sw = 1, sh = 1, dur = 60, ox = None, oy = None,
           hx = None, hy = None, atkBox = None\<rparr>]
   \<and> loop_past_end_anim
       = \<lparr>wrapMode = Some ''loop'', loopStartFrame = Some (PInt 5),
          frames = Some [plain_frame (PInt 1)]\<rparr>"
proof (intro conjI)
  show "zero_convert_anim ''run'' loop_past_end_anim
     = Inr \<lparr>loop = True, loopStart = Some (PInt 5),
            anim_frames = [\<lparr>sx = 0, sy = 0, sw = 1, sh = 1, dur = 60, ox = None, oy = None,
                             hx = None, hy = None, atkBox = None\<rparr>]\<rparr>"
    by code_simp
  show "\<not> valid_index (PInt 5)
         [\<lparr>sx = 0, sy = 0, sw = 1, sh = 1, dur = 60, ox = None, oy = None,
           hx = None, hy = None, atkBox = None\<rparr>]"
    by (simp add: valid_index_def)
  show "loop_past_end_anim
       = \<lparr>wrapMode = Some ''loop'', loopStartFrame = Some (PInt 5),
          frames = Some [plain_frame (PInt 1)]\<rparr>"
    by (simp add: loop_past_end_anim_def)
qed

section \<open>The lookup functions\<close>

lemma overlay_names:
  "ZERO_SHOOT_ANIM_MAP state = Some s \<Longrightarrow> s \<noteq> '''' \<and> s \<notin> set OBJECT_PROTOTYPE"
  by (auto simp: ZERO_SHOOT_ANIM_MAP_def OBJECT_PROTOTYPE_def split: if_splits)

lemma idle_not_inherited: "''idle'' \<notin> set OBJECT_PROTOTYPE"
  by (simp add: OBJECT_PROTOTYPE_def)

lemma table_get_own: "k \<notin> set OBJECT_PROTOTYPE \<Longrightarrow>
    table_get T k = (case T k of Some a \<Rightarrow> JAnim a | None \<Rightarrow> JUndefined)"
  by (simp add: table_get_def inherited_def split: option.splits)

text \<open>
  On a state whose name is not a member of \<^verbatim>\<open>Object.prototype\<close> the accessors resolve as
  their comment says: the overlay animation when firing, the state has an entry in the
  overlay map and the mapped animation is in the table; else the table's entry for the
  state; else the table's idle entry.
\<close>

lemma lookup_of_own_names:
  assumes "state \<notin> set OBJECT_PROTOTYPE"
  shows "getZeroAnim T state firing
     = (case (if firing then ZERO_SHOOT_ANIM_MAP state else None) of
          None \<Rightarrow> (case T state of Some a \<Rightarrow> JAnim a | None \<Rightarrow> table_get T ''idle'')
        | Some overlay \<Rightarrow>
            (case T overlay of
               Some a \<Rightarrow> JAnim a
             | None \<Rightarrow> (case T state of Some a \<Rightarrow> JAnim a | None \<Rightarrow> table_get T ''idle'')))"
    and "getSigmaAnim T state
     = (case T state of Some a \<Rightarrow> JAnim a | None \<Rightarrow> table_get T ''idle'')"
proof -
  have st: "table_get T state = (case T state of Some a \<Rightarrow> JAnim a | None \<Rightarrow> JUndefined)"
    using assms by (rule table_get_own)
  show "getSigmaAnim T state
     = (case T state of Some a \<Rightarrow> JAnim a | None \<Rightarrow> table_get T ''idle'')"
    by (simp add: getSigmaAnim_def st split: option.splits)
  show "getZeroAnim T state firing
     = (case (if firing then ZERO_SHOOT_ANIM_MAP state else None) of
          None \<Rightarrow> (case T state of Some a \<Rightarrow> JAnim a | None \<Rightarrow> table_get T ''idle'')
        | Some overlay \<Rightarrow>
            (case T overlay of
               Some a \<Rightarrow> JAnim a
             | None \<Rightarrow> (case T state of Some a \<Rightarrow> JAnim a | None \<Rightarrow> table_get T ''idle'')))"
  proof (cases "ZERO_SHOOT_ANIM_MAP state")
    case None
    then have "overlay_get state = JUndefined"
      using assms by (simp add: overlay_get_def inherited_def)
    with None show ?thesis
      by (simp add: getZeroAnim_def st split: option.splits)
  next
    case (Some s)
    then have ov: "overlay_get state = JString s"
      by (simp add: overlay_get_def)
    from overlay_names[OF Some] have s: "s \<noteq> ''''" "s \<notin> set OBJECT_PROTOTYPE"
      by simp_all
    from table_get_own[OF s(2)]
    have ts: "table_get T s = (case T s of Some a \<Rightarrow> JAnim a | None \<Rightarrow> JUndefined)" .
    show ?thesis
      using Some s(1)
      by (simp add: getZeroAnim_def ov ts st split: option.splits)
  qed
qed

text \<open>
  Claim C6, which the accessors break. The comment that the scripts write above each
  accessor says that it falls back to idle when the state is not found, and so does the
  claim. The tables are read through \<^verbatim>\<open>Object.prototype\<close>, though: for the state
  \<^verbatim>\<open>'constructor'\<close>, which is no animation of the table, both accessors return the
  inherited member of that name, a function, and not the table's idle animation; a state
  such as \<^verbatim>\<open>'nonexistent_state'\<close> does resolve to idle, and \<^verbatim>\<open>'run'\<close> with firing to
  \<^verbatim>\<open>'run_shoot'\<close>.
\<close>

theorem lookup_inherited_name_is_not_idle:
  "small_table ''constructor'' = None
   \<and> getSigmaAnim small_table ''constructor'' = JInherited ''constructor''
   \<and> getZeroAnim small_table ''constructor'' False = JInherited ''constructor''
   \<and> getZeroAnim small_table ''constructor'' True = JInherited ''constructor''
   \<and> table_get small_table ''idle'' = JAnim (marked_anim 1)
   \<and> getSigmaAnim small_table ''nonexistent_state'' = JAnim (marked_anim 1)
   \<and> getZeroAnim small_table ''nonexistent_state'' False = JAnim (marked_anim 1)
   \<and> getZeroAnim small_table ''run'' True = JAnim (marked_anim 3)
   \<and> getZeroAnim small_table ''run'' False = JAnim (marked_anim 2)"
  by (simp add: getSigmaAnim_def getZeroAnim_def table_get_def overlay_get_def inherited_def
        small_table_def OBJECT_PROTOTYPE_def ZERO_SHOOT_ANIM_MAP_def)

end
